theory Spec2Isabelle
  imports Main
begin

section \<open>Byte strings and the string functions the client relies on\<close>

text \<open>
  A Go string is a sequence of bytes, so it is modelled as \<^typ>\<open>string\<close> (a list of
  8-bit characters). The functions of this section model the Go standard library
  functions that the package \<^verbatim>\<open>rcon\<close> calls; every separator and every pattern the
  package passes to them is ASCII.
\<close>

definition sentinel :: string where
  "sentinel = [CHR 0xFF, CHR 0xFF, CHR 0xFF, CHR 0xFF]"

definition printNL :: string where
  "printNL = ''print\<newline>''"

text \<open>\<^verbatim>\<open>strings.HasPrefix(s, p)\<close>.\<close>

fun HasPrefix :: "string \<Rightarrow> string \<Rightarrow> bool" where
  "HasPrefix s [] = True"
| "HasPrefix [] (p # ps) = False"
| "HasPrefix (c # cs) (p # ps) = (c = p \<and> HasPrefix cs ps)"

text \<open>\<^verbatim>\<open>strings.Contains(s, sub)\<close>.\<close>

fun Contains :: "string \<Rightarrow> string \<Rightarrow> bool" where
  "Contains [] sub = (sub = [])"
| "Contains (c # cs) sub = (HasPrefix (c # cs) sub \<or> Contains cs sub)"

lemma HasPrefix_length: "HasPrefix s p \<Longrightarrow> length p \<le> length s"
  by (induction s p rule: HasPrefix.induct) auto

text \<open>
  \<^verbatim>\<open>strings.ReplaceAll(s, old, new)\<close> for a non-empty \<open>old\<close>: one pass from left to
  right over the non-overlapping occurrences. The package only passes non-empty
  patterns; for an empty one this model leaves \<open>s\<close> as it is.
\<close>

function ReplaceAll :: "string \<Rightarrow> string \<Rightarrow> string \<Rightarrow> string" where
  "ReplaceAll [] old new = []"
| "ReplaceAll (c # cs) old new =
     (if old \<noteq> [] \<and> HasPrefix (c # cs) old
      then new @ ReplaceAll (drop (length old) (c # cs)) old new
      else c # ReplaceAll cs old new)"
  by pat_completeness auto
termination
  by (relation "measure (\<lambda>(s, old, new). length s)") (auto simp: Suc_le_eq)

text \<open>
  \<^verbatim>\<open>strings.TrimSpace\<close> removes the leading and the trailing white space of Unicode:
  the six ASCII characters, and the UTF-8 encodings of U+0085, U+00A0, U+1680,
  U+2000 to U+200A, U+2028, U+2029, U+202F, U+205F and U+3000.
\<close>

definition spaceSeqs :: "string list" where
  "spaceSeqs =
     [[CHR 0x09], [CHR 0x0A], [CHR 0x0B], [CHR 0x0C], [CHR 0x0D], [CHR 0x20],
      [CHR 0xC2, CHR 0x85], [CHR 0xC2, CHR 0xA0],
      [CHR 0xE1, CHR 0x9A, CHR 0x80],
      [CHR 0xE2, CHR 0x80, CHR 0x80], [CHR 0xE2, CHR 0x80, CHR 0x81],
      [CHR 0xE2, CHR 0x80, CHR 0x82], [CHR 0xE2, CHR 0x80, CHR 0x83],
      [CHR 0xE2, CHR 0x80, CHR 0x84], [CHR 0xE2, CHR 0x80, CHR 0x85],
      [CHR 0xE2, CHR 0x80, CHR 0x86], [CHR 0xE2, CHR 0x80, CHR 0x87],
      [CHR 0xE2, CHR 0x80, CHR 0x88], [CHR 0xE2, CHR 0x80, CHR 0x89],
      [CHR 0xE2, CHR 0x80, CHR 0x8A],
      [CHR 0xE2, CHR 0x80, CHR 0xA8], [CHR 0xE2, CHR 0x80, CHR 0xA9],
      [CHR 0xE2, CHR 0x80, CHR 0xAF],
      [CHR 0xE2, CHR 0x81, CHR 0x9F],
      [CHR 0xE3, CHR 0x80, CHR 0x80]]"

text \<open>The length of the first sequence of \<open>seqs\<close> that \<open>s\<close> starts with, 0 if none.\<close>

fun spaceLen :: "string list \<Rightarrow> string \<Rightarrow> nat" where
  "spaceLen [] s = 0"
| "spaceLen (q # qs) s = (if q \<noteq> [] \<and> HasPrefix s q then length q else spaceLen qs s)"

lemma spaceLen_le: "spaceLen qs s \<le> length s"
  by (induction qs) (auto simp: HasPrefix_length)

function trimLeftSeqs :: "string list \<Rightarrow> string \<Rightarrow> string" where
  "trimLeftSeqs qs s =
     (if spaceLen qs s = 0 then s else trimLeftSeqs qs (drop (spaceLen qs s) s))"
  by pat_completeness auto
termination
proof (relation "measure (\<lambda>(qs, s). length s)")
  show "wf (measure (\<lambda>(qs, s). length s))" by simp
next
  fix qs :: "string list" and s :: string
  assume "spaceLen qs s \<noteq> 0"
  moreover have "spaceLen qs s \<le> length s" by (rule spaceLen_le)
  ultimately show "((qs, drop (spaceLen qs s) s), (qs, s)) \<in> measure (\<lambda>(qs, s). length s)"
    by simp
qed

declare trimLeftSeqs.simps [simp del]

definition TrimSpace :: "string \<Rightarrow> string" where
  "TrimSpace s = rev (trimLeftSeqs (map rev spaceSeqs) (rev (trimLeftSeqs spaceSeqs s)))"

text \<open>\<^verbatim>\<open>strings.Split(s, sep)\<close> for a separator of one byte.\<close>

fun Split :: "string \<Rightarrow> char \<Rightarrow> string list" where
  "Split [] d = [[]]"
| "Split (c # cs) d =
     (if c = d then [] # Split cs d
      else (case Split cs d of [] \<Rightarrow> [[c]] | p # ps \<Rightarrow> (c # p) # ps))"

section \<open>Response normalisation (rcon.go)\<close>

text \<open>The loop of \<^verbatim>\<open>normalizeRCON\<close> that strips the leading markers.\<close>

function stripLeading :: "string \<Rightarrow> string" where
  "stripLeading s =
     (let s1 = (if HasPrefix s sentinel then drop 4 s else s);
          s2 = (if HasPrefix s1 printNL then drop 6 s1 else s1)
      in if HasPrefix s sentinel \<or> HasPrefix s1 printNL then stripLeading s2 else s2)"
  by pat_completeness auto
termination
proof (relation "measure length")
  show "wf (measure length)" by simp
next
  fix s s1 s2 :: string
  assume s1: "s1 = (if HasPrefix s sentinel then drop 4 s else s)"
    and s2: "s2 = (if HasPrefix s1 printNL then drop 6 s1 else s1)"
    and ch: "HasPrefix s sentinel \<or> HasPrefix s1 printNL"
  have a: "HasPrefix s sentinel \<Longrightarrow> 4 \<le> length s"
    using HasPrefix_length [of s sentinel] by (simp add: sentinel_def)
  have b: "HasPrefix s1 printNL \<Longrightarrow> 6 \<le> length s1"
    using HasPrefix_length [of s1 printNL] by (simp add: printNL_def)
  have "length s2 < length s"
    using s1 s2 ch a b by (auto split: if_splits)
  then show "(s2, s) \<in> measure length" by simp
qed

declare stripLeading.simps [simp del]

definition normalizeRCON :: "string \<Rightarrow> string" where
  "normalizeRCON s =
     (if s = [] then s
      else let s1 = ReplaceAll s [CHR 0x0D, CHR 0x0A] ''\<newline>'';
               s2 = stripLeading s1;
               s3 = ReplaceAll s2 (CHR 0x0A # sentinel) ''\<newline>'';
               s4 = ReplaceAll s3 ''\<newline>print\<newline>'' ''\<newline>''
           in TrimSpace s4)"

definition splitNonEmptyLines :: "string \<Rightarrow> string list" where
  "splitNonEmptyLines s =
     (if s = [] then []
      else filter (\<lambda>p. p \<noteq> []) (map TrimSpace (Split s (CHR 0x0A))))"

section \<open>Errors, the client and the socket\<close>

text \<open>
  Every error value the package creates or receives. The comments give the message of
  the Go error. \<open>ErrTimeout\<close> stands for a \<^verbatim>\<open>net.Error\<close> whose \<^verbatim>\<open>Timeout()\<close> is true,
  \<open>ErrClosed\<close> for the error of an operation on a closed socket, \<open>ErrIO\<close> for any other
  transport error.
\<close>

datatype error =
    ErrEmptyPassword        \<comment> \<open>RCON password cannot be empty\<close>
  | ErrInvalidPort          \<comment> \<open>invalid port number\<close>
  | ErrResolve              \<comment> \<open>failed to resolve UDP address\<close>
  | ErrDial                 \<comment> \<open>failed to establish UDP connection\<close>
  | ErrNotEstablished       \<comment> \<open>RCON connection is not established\<close>
  | ErrNoResponse string    \<comment> \<open>no response received for command %q\<close>
  | ErrMessageEmpty         \<comment> \<open>message cannot be empty\<close>
  | ErrKickEmpty            \<comment> \<open>player and reason cannot be empty\<close>
  | ErrSetDvarEmpty         \<comment> \<open>dvar and value cannot be empty\<close>
  | ErrDvarEmpty            \<comment> \<open>dvar cannot be empty\<close>
  | ErrEmptyDvar string     \<comment> \<open>empty dvar response for %q\<close>
  | ErrEmptyInfo            \<comment> \<open>empty infoResponse\<close>
  | ErrEmptyStatus          \<comment> \<open>empty statusResponse\<close>
  | ErrTimeout
  | ErrClosed
  | ErrIO string

text \<open>
  A Go call can also panic instead of returning. Two calls of the package can: a method
  call on the nil socket, and \<^verbatim>\<open>regexp.MustCompile\<close> on a pattern that does not compile.
\<close>

datatype panic = NilSocket | BadPattern

datatype 'a run = Returns 'a | Panics panic

definition isTimeout :: "error \<Rightarrow> bool" where
  "isTimeout e = (e = ErrTimeout)"

text \<open>Durations are \<^verbatim>\<open>time.Duration\<close> values: integers counting nanoseconds.\<close>

definition Millisecond :: int where "Millisecond = 1000000"
definition Second :: int where "Second = 1000000000"

definition readBufferSize :: nat where "readBufferSize = 4096"
definition defaultReadTimeout :: int where "defaultReadTimeout = Second"
definition defaultReadExtension :: int where "defaultReadExtension = 350 * Millisecond"

text \<open>The socket handle: the remote address it was dialled to.\<close>

datatype UDPConn = UDPConn string

text \<open>The struct \<^verbatim>\<open>RCONClient\<close> (models.go); a nil \<^verbatim>\<open>Conn\<close> is \<open>None\<close>. The mutex has no
  effect on a single caller and is left out.\<close>

record RCONClient =
  IP :: string
  Port :: int
  Password :: string
  Timeout :: int
  Conn :: "UDPConn option"

record commandSettings =
  retries :: int
  readTimeout :: int
  readExtension :: int
  requireSuccess :: bool

type_synonym commandOption = "commandSettings \<Rightarrow> commandSettings"

text \<open>
  What happens outside the program is a script: the outcome of each successive write
  (\<open>None\<close> when the datagram is sent) and of each successive read on the socket (a
  datagram, or an error such as the timeout when the read deadline passes first). Past
  the end of the script every write succeeds and every read times out: the server
  stays silent. \<open>closed\<close> is the state of the socket, and \<open>trace\<close> logs what the client
  did: the datagrams it passed to \<^verbatim>\<open>Write\<close> (sent or not), the read deadlines it set (as
  the duration the deadline was computed from), and how long it slept.
\<close>

datatype recv = Datagram string | Failure error

datatype event = Wrote string | Deadline int | Slept int

record world =
  closed :: bool
  writes :: "error option list"
  reads :: "recv list"
  trace :: "event list"

text \<open>\<^verbatim>\<open>rc.Conn.Write(packet)\<close>.\<close>

definition connWrite :: "string \<Rightarrow> world \<Rightarrow> error option \<times> world" where
  "connWrite packet w =
     (let w1 = w\<lparr>trace := trace w @ [Wrote packet]\<rparr>
      in if closed w then (Some ErrClosed, w1)
         else case writes w of
                [] \<Rightarrow> (None, w1)
              | r # rs \<Rightarrow> (r, w1\<lparr>writes := rs\<rparr>))"

text \<open>\<^verbatim>\<open>rc.Conn.SetReadDeadline(deadline)\<close>.\<close>

definition connSetReadDeadline :: "int \<Rightarrow> world \<Rightarrow> error option \<times> world" where
  "connSetReadDeadline d w =
     (if closed w then (Some ErrClosed, w)
      else (None, w\<lparr>trace := trace w @ [Deadline d]\<rparr>))"

text \<open>\<^verbatim>\<open>rc.Conn.Read(tmp)\<close> with a buffer of \<open>readBufferSize\<close> bytes: a longer datagram is
  cut to the buffer.\<close>

definition connRead :: "world \<Rightarrow> (error + string) \<times> world" where
  "connRead w =
     (if closed w then (Inl ErrClosed, w)
      else case reads w of
             [] \<Rightarrow> (Inl ErrTimeout, w)
           | Datagram d # evs \<Rightarrow> (Inr (take readBufferSize d), w\<lparr>reads := evs\<rparr>)
           | Failure e # evs \<Rightarrow> (Inl e, w\<lparr>reads := evs\<rparr>))"

text \<open>\<^verbatim>\<open>time.Sleep(d)\<close>.\<close>

definition sleep :: "int \<Rightarrow> world \<Rightarrow> world" where
  "sleep d w = w\<lparr>trace := trace w @ [Slept d]\<rparr>"


definition timeoutOrDefault :: "RCONClient \<Rightarrow> int" where
  "timeoutOrDefault rc = (if Timeout rc \<le> 0 then defaultReadTimeout else Timeout rc)"

section \<open>The response accumulator (rcon.go)\<close>

text \<open>
  The loop of \<^verbatim>\<open>readResponse\<close>: \<open>buf\<close> is the accumulation buffer and \<open>d\<close> the duration
  behind the current deadline. It ends with the buffer, or with the error it returns.
\<close>

lemma connRead_shorter:
  "connRead w = (Inr b, w') \<Longrightarrow> length (reads w') < length (reads w)"
  by (auto simp: connRead_def split: if_splits list.splits recv.splits)

lemma connSetReadDeadline_reads:
  "connSetReadDeadline d w = (r, w') \<Longrightarrow> reads w' = reads w"
  by (auto simp: connSetReadDeadline_def split: if_splits)

lemma readLoop_measure:
  "(x, w1) = connSetReadDeadline d w \<Longrightarrow> (Inr tmp, w2) = connRead w1 \<Longrightarrow>
   length (reads w2) < length (reads w)"
  using connRead_shorter [of w1 tmp w2] connSetReadDeadline_reads [of d w x w1] by simp

function readLoop :: "int \<Rightarrow> string \<Rightarrow> int \<Rightarrow> world \<Rightarrow> (error + string) \<times> world" where
  "readLoop readExt buf d w =
     (case connSetReadDeadline d w of
        (Some err, w1) \<Rightarrow> (Inl err, w1)
      | (None, w1) \<Rightarrow>
          (case connRead w1 of
             (Inl err, w2) \<Rightarrow>
               if isTimeout err then (if length buf = 0 then (Inl err, w2) else (Inr buf, w2))
               else (Inl err, w2)
           | (Inr tmp, w2) \<Rightarrow>
               if length tmp > 0
               then readLoop readExt (buf @ tmp) (if readExt > 0 then readExt else d) w2
               else readLoop readExt buf d w2))"
  by pat_completeness auto
termination
  by (relation "measure (\<lambda>(readExt, buf, d, w). length (reads w))")
     (auto intro: readLoop_measure)

declare readLoop.simps [simp del]

text \<open>The pair that a Go function returning \<^verbatim>\<open>([]string, error)\<close> gives back; the nil
  slice is the empty list.\<close>

type_synonym lines_result = "string list \<times> error option"

definition readResponse :: "int \<Rightarrow> int \<Rightarrow> world \<Rightarrow> lines_result \<times> world" where
  "readResponse readTimeout0 readExtension0 w =
     (let readTimeout1 = (if readTimeout0 \<le> 0 then defaultReadTimeout else readTimeout0);
          readExtension1 = (if readExtension0 < 0 then 0 else readExtension0)
      in case readLoop readExtension1 [] readTimeout1 w of
           (Inl err, w1) \<Rightarrow> (([], Some err), w1)
         | (Inr buf, w1) \<Rightarrow>
             (let raw = normalizeRCON buf
              in if raw = [] then (([], None), w1)
                 else ((splitNonEmptyLines raw, None), w1)))"

section \<open>The command executor (commands.go)\<close>

definition requireResponse :: commandOption where
  "requireResponse s =
     (let s1 = s\<lparr>requireSuccess := True\<rparr>
      in if retries s1 = 0 then s1\<lparr>retries := 2\<rparr> else s1)"

definition withReadExtension :: "int \<Rightarrow> commandOption" where
  "withReadExtension d s = s\<lparr>readExtension := (if d < 0 then 0 else d)\<rparr>"

text \<open>The settings of a call: the defaults, then each option in turn.\<close>

definition settingsOf :: "RCONClient \<Rightarrow> commandOption list \<Rightarrow> commandSettings" where
  "settingsOf rc opts =
     foldl (\<lambda>s opt. opt s)
       \<lparr>retries = 3, readTimeout = timeoutOrDefault rc,
        readExtension = defaultReadExtension, requireSuccess = False\<rparr> opts"

text \<open>The request datagram of a command; \<open>args\<close> is the optional argument string.\<close>

definition payloadOf :: "RCONClient \<Rightarrow> string \<Rightarrow> string option \<Rightarrow> string" where
  "payloadOf rc cmd args =
     (case args of
        None \<Rightarrow> ''rcon '' @ Password rc @ '' '' @ TrimSpace cmd
      | Some a \<Rightarrow>
          if TrimSpace a \<noteq> []
          then ''rcon '' @ Password rc @ '' '' @ TrimSpace cmd @ '' '' @ TrimSpace a
          else ''rcon '' @ Password rc @ '' '' @ TrimSpace cmd)"

definition packetOf :: "string \<Rightarrow> string" where
  "packetOf payload = sentinel @ payload @ ''\<newline>''"

text \<open>The sleep between two attempts: none after the last one.\<close>

definition backoff :: "commandSettings \<Rightarrow> int \<Rightarrow> world \<Rightarrow> world" where
  "backoff s i w = (if i < retries s then sleep ((i + 1) * 150 * Millisecond) w else w)"

text \<open>
  The retry loop of \<^verbatim>\<open>SendCommand\<close>, from attempt \<open>i\<close> with the remembered error \<open>lerr\<close>.
  It leaves by a \<^verbatim>\<open>return\<close> inside the loop, or falls through with the remembered
  error when the attempts are used up.
\<close>

datatype loopExit = Returned lines_result | Exhausted "error option"

function sendLoop ::
  "commandSettings \<Rightarrow> string \<Rightarrow> int \<Rightarrow> error option \<Rightarrow> world \<Rightarrow> loopExit \<times> world" where
  "sendLoop s packet i lerr w =
     (if i \<le> retries s then
        (case connWrite packet w of
           (Some err, w1) \<Rightarrow> sendLoop s packet (i + 1) (Some err) (backoff s i w1)
         | (None, w1) \<Rightarrow>
             (case readResponse (readTimeout s) (readExtension s) w1 of
                ((res, err), w2) \<Rightarrow>
                  if length res > 0 then (Returned (res, None), w2)
                  else (case err of
                          None \<Rightarrow>
                            if \<not> requireSuccess s then (Returned (res, None), w2)
                            else sendLoop s packet (i + 1) lerr (backoff s i w2)
                        | Some e \<Rightarrow>
                            if isTimeout e then
                              (if \<not> requireSuccess s then (Returned ([], None), w2)
                               else sendLoop s packet (i + 1) (Some e) (backoff s i w2))
                            else (Returned ([], Some e), w2))))
      else (Exhausted lerr, w))"
  by pat_completeness auto
termination
  by (relation "measure (\<lambda>(s, packet, i, lerr, w). nat (retries s + 1 - i))") auto

declare sendLoop.simps [simp del]

definition SendCommand ::
  "RCONClient \<Rightarrow> string \<Rightarrow> string option \<Rightarrow> commandOption list \<Rightarrow> world
     \<Rightarrow> lines_result \<times> world" where
  "SendCommand rc cmd args opts w =
     (if Conn rc = None then (([], Some ErrNotEstablished), w)
      else
        let s = settingsOf rc opts;
            packet = packetOf (payloadOf rc cmd args)
        in case sendLoop s packet 0 None w of
             (Returned r, w1) \<Rightarrow> (r, w1)
           | (Exhausted lerr, w1) \<Rightarrow>
               if requireSuccess s then
                 (if lerr \<noteq> None then (([], lerr), w1)
                  else (([], Some (ErrNoResponse cmd)), w1))
               else (([], lerr), w1))"

subsection \<open>The attempts of a call, seen from outside\<close>

text \<open>
  One attempt is one write followed, when the write went through, by one accumulation.
  \<open>oneAttempt\<close> names its outcome: the write failed; the accumulation gave lines; it
  gave none and no error; it gave none and ended in the timeout; it gave none and ended
  in another read error. \<open>attemptsFrom\<close> lists the outcomes of the attempts \<open>i\<close>,
  \<open>i + 1\<close>, ... up to \<open>retries\<close> as the script of the world yields them, with the sleep of
  the loop between two attempts.
\<close>

datatype outcome =
    WriteFailed error
  | GotLines "string list"
  | NoLines
  | TimedOut error
  | ReadFailed error

definition oneAttempt :: "commandSettings \<Rightarrow> string \<Rightarrow> world \<Rightarrow> outcome \<times> world" where
  "oneAttempt s packet w =
     (case connWrite packet w of
        (Some err, w1) \<Rightarrow> (WriteFailed err, w1)
      | (None, w1) \<Rightarrow>
          (case readResponse (readTimeout s) (readExtension s) w1 of
             ((res, err), w2) \<Rightarrow>
               (if length res > 0 then GotLines res
                else case err of
                       None \<Rightarrow> NoLines
                     | Some e \<Rightarrow> if e = ErrTimeout then TimedOut e else ReadFailed e, w2)))"

function attemptsFrom :: "commandSettings \<Rightarrow> string \<Rightarrow> int \<Rightarrow> world \<Rightarrow> outcome list" where
  "attemptsFrom s packet i w =
     (if i \<le> retries s
      then fst (oneAttempt s packet w) # attemptsFrom s packet (i + 1) (backoff s i (snd (oneAttempt s packet w)))
      else [])"
  by pat_completeness auto
termination
  by (relation "measure (\<lambda>(s, packet, i, w). nat (retries s + 1 - i))") auto

declare attemptsFrom.simps [simp del]

text \<open>An established client and a world whose server stays silent, for concrete runs.\<close>

definition rc0 :: RCONClient where
  "rc0 = \<lparr>IP = ''127.0.0.1'', Port = 28960, Password = ''secret'', Timeout = Second,
          Conn = Some (UDPConn ''127.0.0.1:28960'')\<rparr>"

definition quiet :: world where
  "quiet = \<lparr>closed = False, writes = [], reads = [], trace = []\<rparr>"


section \<open>Numbers, letter case and colour codes\<close>

definition digits :: string where "digits = ''0123456789''"
definition lowers :: string where "lowers = ''abcdefghijklmnopqrstuvwxyz''"
definition uppers :: string where "uppers = ''ABCDEFGHIJKLMNOPQRSTUVWXYZ''"

definition isDigit :: "char \<Rightarrow> bool" where
  "isDigit c = (c \<in> set digits)"

definition digitVal :: "char \<Rightarrow> int" where
  "digitVal c = of_char c - 48"

definition decimal :: "string \<Rightarrow> int" where
  "decimal ds = foldl (\<lambda>n c. n * 10 + digitVal c) 0 ds"

text \<open>
  \<^verbatim>\<open>strconv.Atoi\<close> and \<^verbatim>\<open>strconv.ParseInt(s, 10, 64)\<close> where \<^verbatim>\<open>int\<close> has 64 bits: an
  optional sign and decimal digits. They return a value also with an error: 0 for
  a syntax error, the nearest bound of the range for a number out of range.
\<close>

datatype numError = ErrSyntax | ErrRange

definition Atoi :: "string \<Rightarrow> int \<times> numError option" where
  "Atoi s =
     (let neg = HasPrefix s ''-'';
          ds = (if HasPrefix s ''-'' \<or> HasPrefix s ''+'' then drop 1 s else s)
      in if ds = [] \<or> \<not> list_all isDigit ds then (0, Some ErrSyntax)
         else if neg then
           (if decimal ds > 2 ^ 63 then (- (2 ^ 63), Some ErrRange) else (- decimal ds, None))
         else
           (if decimal ds \<ge> 2 ^ 63 then (2 ^ 63 - 1, Some ErrRange) else (decimal ds, None)))"

text \<open>The helper \<^verbatim>\<open>atoi\<close> of the package drops the error.\<close>

definition atoi :: "string \<Rightarrow> int" where
  "atoi s = fst (Atoi s)"

text \<open>The ASCII letter of the other case, for one byte.\<close>

fun mapChar :: "string \<Rightarrow> string \<Rightarrow> char \<Rightarrow> char" where
  "mapChar (a # as) (b # bs) c = (if c = a then b else mapChar as bs c)"
| "mapChar as bs c = c"

definition lowerChar :: "char \<Rightarrow> char" where
  "lowerChar c = mapChar uppers lowers c"

definition upperChar :: "char \<Rightarrow> char" where
  "upperChar c = mapChar lowers uppers c"

text \<open>
  \<^verbatim>\<open>strings.EqualFold(s, t)\<close> for a \<open>t\<close> of ASCII letters, which is how the package calls
  it. Under the simple case folding of Unicode an ASCII letter is equal to its other
  case; moreover \<open>s\<close> and \<open>S\<close> are equal to U+017F (bytes C5 BF) and \<open>k\<close> and \<open>K\<close> to
  U+212A (bytes E2 84 AA). No other rune folds to an ASCII letter.
\<close>

definition longS :: string where "longS = [CHR 0xC5, CHR 0xBF]"
definition kelvin :: string where "kelvin = [CHR 0xE2, CHR 0x84, CHR 0xAA]"

text \<open>How many bytes at the start of \<open>s\<close> are one rune equal to the ASCII character
  \<open>t\<close> under case folding; 0 if none.\<close>

definition foldLen :: "string \<Rightarrow> char \<Rightarrow> nat" where
  "foldLen s t =
     (case s of
        [] \<Rightarrow> 0
      | c # cs \<Rightarrow>
          if lowerChar c = lowerChar t then 1
          else if lowerChar t = CHR ''s'' \<and> HasPrefix s longS then 2
          else if lowerChar t = CHR ''k'' \<and> HasPrefix s kelvin then 3
          else 0)"

fun EqualFold :: "string \<Rightarrow> string \<Rightarrow> bool" where
  "EqualFold s [] = (s = [])"
| "EqualFold s (t # ts) = (foldLen s t > 0 \<and> EqualFold (drop (foldLen s t) s) ts)"

text \<open>
  \<^verbatim>\<open>strings.ToLower\<close>, as far as a search for ASCII text in its result can tell: ASCII
  capitals become small letters, and so do the two runes whose lower case is an ASCII
  letter, U+0130 (bytes C4 B0, to \<open>i\<close>) and U+212A (to \<open>k\<close>). The bytes of any other
  rune are left as they are; Go maps them to bytes that are not ASCII either. The
  package only searches the result for ASCII text.
\<close>

definition dotI :: string where "dotI = [CHR 0xC4, CHR 0xB0]"

function ToLower :: "string \<Rightarrow> string" where
  "ToLower [] = []"
| "ToLower (c # cs) =
     (if HasPrefix (c # cs) dotI then CHR ''i'' # ToLower (drop 2 (c # cs))
      else if HasPrefix (c # cs) kelvin then CHR ''k'' # ToLower (drop 3 (c # cs))
      else lowerChar c # ToLower cs)"
  by pat_completeness auto
termination
  by (relation "measure length") auto

definition boolSafe :: "string \<Rightarrow> bool" where
  "boolSafe s = (let v = TrimSpace s in v = ''1'' \<or> EqualFold v ''true'')"

text \<open>
  \<^verbatim>\<open>stripColorCodes\<close>: every match of \<^verbatim>\<open>\^[0-9A-Za-z]\<close>, found from left to right without
  overlap, is removed.
\<close>

definition isAlnum :: "char \<Rightarrow> bool" where
  "isAlnum c = (c \<in> set (digits @ uppers @ lowers))"

fun stripColorCodes :: "string \<Rightarrow> string" where
  "stripColorCodes (c # d # cs) =
     (if c = CHR ''^'' \<and> isAlnum d then stripColorCodes cs
      else c # stripColorCodes (d # cs))"
| "stripColorCodes cs = cs"

text \<open>\<^verbatim>\<open>strings.Cut(s, sep)\<close> for a separator of one byte: the text before the first
  separator, the text after it, and whether there is one.\<close>

fun Cut :: "string \<Rightarrow> char \<Rightarrow> string \<times> string \<times> bool" where
  "Cut [] d = ([], [], False)"
| "Cut (c # cs) d =
     (if c = d then ([], cs, True)
      else (case Cut cs d of (b, a, found) \<Rightarrow> (c # b, a, found)))"

section \<open>Runes (unicode/utf8)\<close>

text \<open>
  A pattern is text in UTF-8, and \<^verbatim>\<open>regexp.MustCompile\<close> panics on a pattern that is not
  valid UTF-8; the matcher reads the text it searches rune by rune. \<open>decodeRune\<close> is \<^verbatim>\<open>utf8.DecodeRuneInString\<close>: the code point of the first
  rune and the number of its bytes, \<open>None\<close> where Go gives \<^verbatim>\<open>RuneError\<close> with width 1 (or
  the string is empty). The second byte of a rune is restricted by the first one, which
  excludes the overlong forms, the surrogates and the code points above U+10FFFF.
\<close>

definition byte :: "char \<Rightarrow> int" where
  "byte c = of_char c"

definition cont :: "char \<Rightarrow> bool" where
  "cont c = (128 \<le> byte c \<and> byte c \<le> 191)"

definition second3 :: "char \<Rightarrow> char \<Rightarrow> bool" where
  "second3 a b =
     (if byte a = 224 then 160 \<le> byte b \<and> byte b \<le> 191
      else if byte a = 237 then 128 \<le> byte b \<and> byte b \<le> 159
      else cont b)"

definition second4 :: "char \<Rightarrow> char \<Rightarrow> bool" where
  "second4 a b =
     (if byte a = 240 then 144 \<le> byte b \<and> byte b \<le> 191
      else if byte a = 244 then 128 \<le> byte b \<and> byte b \<le> 143
      else cont b)"

definition decodeRune :: "string \<Rightarrow> (int \<times> nat) option" where
  "decodeRune s =
     (case s of
        [] \<Rightarrow> None
      | a # r1 \<Rightarrow>
          if byte a < 128 then Some (byte a, 1)
          else if 194 \<le> byte a \<and> byte a \<le> 223 then
            (case r1 of
               b # r2 \<Rightarrow>
                 if cont b then Some ((byte a - 192) * 64 + (byte b - 128), 2) else None
             | [] \<Rightarrow> None)
          else if 224 \<le> byte a \<and> byte a \<le> 239 then
            (case r1 of
               b # c # r3 \<Rightarrow>
                 if second3 a b \<and> cont c
                 then Some ((byte a - 224) * 4096 + (byte b - 128) * 64 + (byte c - 128), 3)
                 else None
             | r2 \<Rightarrow> None)
          else if 240 \<le> byte a \<and> byte a \<le> 244 then
            (case r1 of
               b # c # d # r4 \<Rightarrow>
                 if second4 a b \<and> cont c \<and> cont d
                 then Some ((byte a - 240) * 262144 + (byte b - 128) * 4096
                            + (byte c - 128) * 64 + (byte d - 128), 4)
                 else None
             | r2 \<Rightarrow> None)
          else None)"

lemma decodeRune_size: "decodeRune s = Some (r, n) \<Longrightarrow> 0 < n \<and> n \<le> length s"
  by (auto simp: decodeRune_def split: list.splits if_splits)

text \<open>The runes of a text, up to its first byte that is not the start of a rune, and
  whether there is no such byte (\<^verbatim>\<open>utf8.ValidString\<close>).\<close>

function runesOf :: "string \<Rightarrow> int list" where
  "runesOf s =
     (case decodeRune s of
        None \<Rightarrow> []
      | Some (r, n) \<Rightarrow> r # runesOf (drop n s))"
  by pat_completeness auto
termination
  by (relation "measure length") (auto dest!: decodeRune_size)

declare runesOf.simps [simp del]

function validUTF8 :: "string \<Rightarrow> bool" where
  "validUTF8 s =
     (if s = [] then True
      else case decodeRune s of
             None \<Rightarrow> False
           | Some (r, n) \<Rightarrow> validUTF8 (drop n s))"
  by pat_completeness auto
termination
  by (relation "measure length") (auto dest!: decodeRune_size)

declare validUTF8.simps [simp del]

text \<open>The bytes of a rune (\<^verbatim>\<open>utf8.AppendRune\<close>, for a code point that is not a surrogate
  and not above U+10FFFF).\<close>

definition encodeRune :: "int \<Rightarrow> string" where
  "encodeRune r =
     (if r < 128 then [char_of r]
      else if r < 2048 then [char_of (192 + r div 64), char_of (128 + r mod 64)]
      else if r < 65536 then
        [char_of (224 + r div 4096), char_of (128 + (r div 64) mod 64), char_of (128 + r mod 64)]
      else
        [char_of (240 + r div 262144), char_of (128 + (r div 4096) mod 64),
         char_of (128 + (r div 64) mod 64), char_of (128 + r mod 64)])"

section \<open>Regular expressions\<close>

text \<open>
  The package matches three kinds of lines with \<^verbatim>\<open>regexp\<close>. Go's matcher returns the
  leftmost match, and among the leftmost ones the match that a backtracking search
  finds first; the matcher below is that backtracking search for the operators the
  package's patterns use: character classes, concatenation, alternation (first
  alternative first), greedy and lazy repetition of a class, named groups, and the
  anchors of the beginning and the end of the text.

  It reads bytes. Go reads runes, which makes no difference for the classes of these
  patterns: the only classes that accept a byte outside ASCII are \<^verbatim>\<open>.\<close> and \<^verbatim>\<open>\S\<close>, both
  accept every such byte, and what follows them in the patterns starts with an ASCII
  character or is the end of the text. A literal rune outside ASCII is the sequence of
  its bytes. Go reads a byte of the text that does not begin a rune as the rune U+FFFD
  of width 1, so that this rune, as a literal of a pattern, also matches such a byte:
  that is \<open>Bad\<close>.
\<close>

datatype cls = In string | NotIn string

fun clsMatch :: "cls \<Rightarrow> char \<Rightarrow> bool" where
  "clsMatch (In cs) c = (c \<in> set cs)"
| "clsMatch (NotIn cs) c = (c \<notin> set cs)"

datatype rx =
    Chr cls
  | Eps
  | Cat rx rx
  | Alt rx rx
  | Star bool cls      \<comment> \<open>the flag is true for the greedy form\<close>
  | Grp string rx
  | Bol
  | Eol
  | Bad                \<comment> \<open>one byte that does not begin a rune\<close>

text \<open>A matcher state: the text left, how many bytes were read, and the groups set
  so far (the latest first).\<close>

type_synonym mstate = "string \<times> nat \<times> (string \<times> string) list"

fun starG :: "cls \<Rightarrow> (mstate \<Rightarrow> 'r option) \<Rightarrow> string \<Rightarrow> nat \<Rightarrow> (string \<times> string) list \<Rightarrow> 'r option" where
  "starG c k [] pos caps = k ([], pos, caps)"
| "starG c k (x # xs) pos caps =
     (if clsMatch c x
      then (case starG c k xs (pos + 1) caps of
              Some r \<Rightarrow> Some r
            | None \<Rightarrow> k (x # xs, pos, caps))
      else k (x # xs, pos, caps))"

fun starL :: "cls \<Rightarrow> (mstate \<Rightarrow> 'r option) \<Rightarrow> string \<Rightarrow> nat \<Rightarrow> (string \<times> string) list \<Rightarrow> 'r option" where
  "starL c k [] pos caps = k ([], pos, caps)"
| "starL c k (x # xs) pos caps =
     (case k (x # xs, pos, caps) of
        Some r \<Rightarrow> Some r
      | None \<Rightarrow> if clsMatch c x then starL c k xs (pos + 1) caps else None)"

primrec rxMatch :: "rx \<Rightarrow> (mstate \<Rightarrow> 'r option) \<Rightarrow> mstate \<Rightarrow> 'r option" where
  "rxMatch (Chr c) k =
     (\<lambda>(s, pos, caps). case s of
                          [] \<Rightarrow> None
                        | x # xs \<Rightarrow> if clsMatch c x then k (xs, pos + 1, caps) else None)"
| "rxMatch Eps k = k"
| "rxMatch (Cat a b) k = rxMatch a (rxMatch b k)"
| "rxMatch (Alt a b) k =
     (\<lambda>st. case rxMatch a k st of Some r \<Rightarrow> Some r | None \<Rightarrow> rxMatch b k st)"
| "rxMatch (Star greedy c) k =
     (\<lambda>(s, pos, caps). if greedy then starG c k s pos caps else starL c k s pos caps)"
| "rxMatch (Grp name a) k =
     (\<lambda>(s, pos, caps).
        rxMatch a (\<lambda>(s', pos', caps'). k (s', pos', (name, take (pos' - pos) s) # caps'))
          (s, pos, caps))"
| "rxMatch Bol k = (\<lambda>(s, pos, caps). if pos = 0 then k (s, pos, caps) else None)"
| "rxMatch Eol k = (\<lambda>(s, pos, caps). if s = [] then k (s, pos, caps) else None)"
| "rxMatch Bad k =
     (\<lambda>(s, pos, caps). case s of
                          [] \<Rightarrow> None
                        | x # xs \<Rightarrow> if decodeRune (x # xs) = None then k (xs, pos + 1, caps)
                                     else None)"

text \<open>The search for the leftmost match, from the position \<open>pos\<close> of the text on.\<close>

fun findFrom :: "rx \<Rightarrow> string \<Rightarrow> nat \<Rightarrow> (string \<times> string) list option" where
  "findFrom r [] pos = rxMatch r (\<lambda>(s, p, caps). Some caps) ([], pos, [])"
| "findFrom r (x # xs) pos =
     (case rxMatch r (\<lambda>(s, p, caps). Some caps) (x # xs, pos, []) of
        Some caps \<Rightarrow> Some caps
      | None \<Rightarrow> findFrom r xs (pos + 1))"

text \<open>\<^verbatim>\<open>FindStringSubmatch\<close>, giving the groups by name, and \<^verbatim>\<open>MatchString\<close>.\<close>

definition FindStringSubmatch :: "rx \<Rightarrow> string \<Rightarrow> (string \<times> string) list option" where
  "FindStringSubmatch r s = findFrom r s 0"

definition MatchString :: "rx \<Rightarrow> string \<Rightarrow> bool" where
  "MatchString r s = (FindStringSubmatch r s \<noteq> None)"

text \<open>The text of a named group of a match; the empty string for a group that took
  no part in the match.\<close>

definition group :: "(string \<times> string) list \<Rightarrow> string \<Rightarrow> string" where
  "group caps name = (case map_of caps name of None \<Rightarrow> [] | Some v \<Rightarrow> v)"

text \<open>\<^verbatim>\<open>ReplaceAllString(s, repl)\<close> for a pattern that matches no empty text: the matches
  are found from left to right without overlap.\<close>

definition matchLen :: "rx \<Rightarrow> string \<Rightarrow> nat \<Rightarrow> nat option" where
  "matchLen r s pos = rxMatch r (\<lambda>(s', pos', caps). Some (pos' - pos)) (s, pos, [])"

function ReplaceAllString :: "rx \<Rightarrow> string \<Rightarrow> string \<Rightarrow> nat \<Rightarrow> string" where
  "ReplaceAllString r repl [] pos = []"
| "ReplaceAllString r repl (x # xs) pos =
     (case matchLen r (x # xs) pos of
        None \<Rightarrow> x # ReplaceAllString r repl xs (pos + 1)
      | Some n \<Rightarrow>
          if n > 0 then repl @ ReplaceAllString r repl (drop n (x # xs)) (pos + n)
          else x # ReplaceAllString r repl xs (pos + 1))"
  by pat_completeness auto
termination
  by (relation "measure (\<lambda>(r, repl, s, pos). length s)") auto

text \<open>Pattern syntax: a sequence, \<^verbatim>\<open>x+\<close>, \<^verbatim>\<open>x?\<close>, a literal text, and a literal text under
  the flag \<^verbatim>\<open>(?i)\<close>.\<close>

definition Seq :: "rx list \<Rightarrow> rx" where
  "Seq rs = foldr Cat rs Eps"

definition Plus :: "bool \<Rightarrow> cls \<Rightarrow> rx" where
  "Plus greedy c = Cat (Chr c) (Star greedy c)"

definition Opt :: "rx \<Rightarrow> rx" where
  "Opt r = Alt r Eps"

definition Lit :: "string \<Rightarrow> rx" where
  "Lit s = Seq (map (\<lambda>c. Chr (In [c])) s)"

definition foldChar :: "char \<Rightarrow> rx" where
  "foldChar c =
     (if lowerChar c = CHR ''s'' then Alt (Chr (In ''sS'')) (Lit longS)
      else if lowerChar c = CHR ''k'' then Alt (Chr (In ''kK'')) (Lit kelvin)
      else Chr (In [lowerChar c, upperChar c]))"

definition LitFold :: "string \<Rightarrow> rx" where
  "LitFold s = Seq (map foldChar s)"

definition clsDigit :: cls where "clsDigit = In digits"
definition clsSpace :: cls where
  "clsSpace = In [CHR 0x09, CHR 0x0A, CHR 0x0C, CHR 0x0D, CHR 0x20]"
definition clsNonSpace :: cls where
  "clsNonSpace = NotIn [CHR 0x09, CHR 0x0A, CHR 0x0C, CHR 0x0D, CHR 0x20]"
definition clsWord :: cls where "clsWord = In (digits @ uppers @ lowers @ ''_'')"
definition clsHex :: cls where "clsHex = In (digits @ ''abcdefABCDEF'')"
definition clsAny :: cls where "clsAny = NotIn [CHR 0x0A]"

section \<open>The status table (commands.go)\<close>

text \<open>The field \<^verbatim>\<open>Ping\<close> has the type \<^verbatim>\<open>any\<close>: it holds an \<^verbatim>\<open>int\<close> or a \<^verbatim>\<open>string\<close>.\<close>

datatype ping = PingInt int | PingString string

text \<open>The struct \<^verbatim>\<open>Player\<close>. Its fields \<^verbatim>\<open>IP\<close> and \<^verbatim>\<open>Port\<close> are named \<open>PlayerIP\<close> and
  \<open>PlayerPort\<close> here, apart from the fields of the client.\<close>

record Player =
  ClientNum :: int
  Name :: string
  Ping :: ping
  Score :: int
  PlayerIP :: string
  PlayerPort :: int
  QPort :: int
  GUID :: string
  LastMsg :: int
  Rate :: int

text \<open>The struct \<^verbatim>\<open>ServerStatus\<close>, without the time stamp \<^verbatim>\<open>RetrievedAt\<close>.\<close>

record ServerStatus =
  Map :: string
  Players :: "Player list"
  Raw :: "string list"

text \<open>\<^verbatim>\<open>(?i)^num\s+score\s+ping\<close>\<close>

definition headerRx :: rx where
  "headerRx =
     Seq [Bol, LitFold ''num'', Plus True clsSpace, LitFold ''score'', Plus True clsSpace,
          LitFold ''ping'']"

text \<open>The pattern of a row of the table.\<close>

definition pattern :: rx where
  "pattern =
     Seq [Grp ''num'' (Plus True clsDigit), Plus True clsSpace,
          Grp ''score'' (Cat (Opt (Chr (In ''-''))) (Plus True clsDigit)), Plus True clsSpace,
          Opt (Grp ''bot'' (Plus True clsWord)), Star True clsSpace,
          Grp ''ping'' (Alt (Plus True clsDigit) (Lit ''LOAD'')), Plus True clsSpace,
          Grp ''guid'' (Plus True clsHex), Plus True clsSpace,
          Grp ''name'' (Plus False clsAny), Plus True clsSpace,
          Grp ''lastmsg'' (Plus True clsDigit), Plus True clsSpace,
          Grp ''ipport'' (Plus True clsNonSpace), Plus True clsSpace,
          Grp ''qport'' (Plus True clsDigit), Plus True clsSpace,
          Grp ''rate'' (Plus True clsDigit)]"

text \<open>The first loop of \<^verbatim>\<open>Status\<close>: the map name of the first line that starts with
  \<^verbatim>\<open>map:\<close> in any case.\<close>

fun mapName :: "string list \<Rightarrow> string" where
  "mapName [] = []"
| "mapName (l # ls) =
     (let line = TrimSpace l
      in if HasPrefix (ToLower line) ''map:''
         then (case Cut line (CHR '':'') of
                 (before, after, True) \<Rightarrow> TrimSpace after
               | (before, after, False) \<Rightarrow> [])
         else mapName ls)"

text \<open>The second loop: the index after the header line, 0 when there is none.\<close>

fun headerEnd :: "string list \<Rightarrow> nat \<Rightarrow> nat" where
  "headerEnd [] i = 0"
| "headerEnd (l # ls) i =
     (if MatchString headerRx (TrimSpace l) then i + 1 else headerEnd ls (i + 1))"

text \<open>The body of the third loop for a row that matches the pattern.\<close>

definition playerOf :: "(string \<times> string) list \<Rightarrow> Player" where
  "playerOf match =
     (let ipport = group match ''ipport'';
          ip = fst (Cut ipport (CHR '':''));
          portStr = fst (snd (Cut ipport (CHR '':'')));
          port = fst (Atoi portStr);
          pingStr = group match ''ping'';
          ping = (if pingStr \<noteq> ''LOAD''
                  then (case Atoi pingStr of
                          (val, None) \<Rightarrow> PingInt val
                        | (val, Some err) \<Rightarrow> PingString pingStr)
                  else PingString pingStr)
      in \<lparr>ClientNum = atoi (group match ''num''),
          Name = group match ''name'',
          Ping = ping,
          Score = atoi (group match ''score''),
          PlayerIP = ip,
          PlayerPort = port,
          QPort = atoi (group match ''qport''),
          GUID = group match ''guid'',
          LastMsg = atoi (group match ''lastmsg''),
          Rate = atoi (group match ''rate'')\<rparr>)"

fun playersOf :: "string list \<Rightarrow> Player list" where
  "playersOf [] = []"
| "playersOf (l # ls) =
     (let line = TrimSpace l
      in if line = [] then playersOf ls
         else if \<not> isDigit (hd line) then playersOf ls
         else (case FindStringSubmatch pattern line of
                 None \<Rightarrow> playersOf ls
               | Some match \<Rightarrow> playerOf match # playersOf ls))"

text \<open>What \<^verbatim>\<open>Status\<close> makes of the lines of the response.\<close>

definition statusOf :: "string list \<Rightarrow> ServerStatus" where
  "statusOf res =
     \<lparr>Map = mapName res,
      Players = playersOf (drop (headerEnd res 0) res),
      Raw = res\<rparr>"

definition Status :: "RCONClient \<Rightarrow> world \<Rightarrow> (error + ServerStatus) \<times> world" where
  "Status rc w =
     (case SendCommand rc ''status'' None [requireResponse, withReadExtension (1 * Second)] w of
        ((res, Some err), w1) \<Rightarrow> (Inl err, w1)
      | ((res, None), w1) \<Rightarrow> (Inr (statusOf res), w1))"

section \<open>The key/value blocks (commands.go)\<close>

definition backslash :: char where "backslash = CHR 0x5C"

text \<open>The loop that joins the data lines of a response; \<open>banner\<close> is \<^verbatim>\<open>inforesponse\<close> or
  \<^verbatim>\<open>statusresponse\<close>.\<close>

fun dataLoop :: "string \<Rightarrow> string list \<Rightarrow> string \<Rightarrow> string" where
  "dataLoop banner [] dataLine = dataLine"
| "dataLoop banner (l # ls) dataLine =
     (let t = TrimSpace l
      in if EqualFold t banner then dataLoop banner ls dataLine
         else if HasPrefix t [backslash] \<or> Contains t [backslash]
         then dataLoop banner ls (if dataLine = [] then t else dataLine @ t)
         else dataLoop banner ls dataLine)"

text \<open>The data line of a response; the callers have checked that \<open>lines\<close> is not empty.\<close>

definition dataLineOf :: "string \<Rightarrow> string list \<Rightarrow> string" where
  "dataLineOf banner lines =
     (let dataLine = dataLoop banner lines []
      in if dataLine = [] then TrimSpace (last lines) else dataLine)"

text \<open>The loop \<^verbatim>\<open>for i := 0; i < len(parts)-1; i += 2\<close> that fills the map.\<close>

function kvLoop :: "string list \<Rightarrow> nat \<Rightarrow> (string \<rightharpoonup> string) \<Rightarrow> (string \<rightharpoonup> string)" where
  "kvLoop parts i kv =
     (if i + 1 < length parts then
        (let key = TrimSpace (parts ! i);
             val = TrimSpace (parts ! (i + 1))
         in if key = [] then kvLoop parts (i + 2) kv
            else kvLoop parts (i + 2) (kv(key \<mapsto> stripColorCodes val)))
      else kv)"
  by pat_completeness auto
termination
  by (relation "measure (\<lambda>(parts, i, kv). length parts - i)") auto

declare kvLoop.simps [simp del]

text \<open>From the data line to the map: split, drop an empty first element, pair up.\<close>

definition decodeKV :: "string \<Rightarrow> (string \<rightharpoonup> string)" where
  "decodeKV dataLine =
     (let parts = Split dataLine backslash;
          parts1 = (if length parts > 0 \<and> hd parts = [] then tl parts else parts)
      in kvLoop parts1 0 Map.empty)"

text \<open>Reading a Go map at a key gives the empty string when the key is absent.\<close>

definition at :: "(string \<rightharpoonup> string) \<Rightarrow> string \<Rightarrow> string" where
  "at kv k = (case kv k of None \<Rightarrow> [] | Some v \<Rightarrow> v)"

text \<open>The struct \<^verbatim>\<open>ServerInfo\<close>, without the time stamp.\<close>

record ServerInfo =
  NetFieldChk :: int
  Protocol :: int
  SessionMode :: int
  Hostname :: string
  MapName :: string
  IsInGame :: bool
  MaxClients :: int
  GameType :: string
  HW :: int
  Mod :: bool
  Voice :: bool
  SecKey :: string
  SecID :: string
  HostAddr :: string

definition atoint64Safe :: "(string \<rightharpoonup> string) \<Rightarrow> string \<Rightarrow> int" where
  "atoint64Safe kv k = (case kv k of None \<Rightarrow> 0 | Some v \<Rightarrow> fst (Atoi v))"

text \<open>The assignments of \<^verbatim>\<open>GetInfo\<close> to the fields, as they are written: \<^verbatim>\<open>atoi\<close> and
  \<^verbatim>\<open>boolSafe\<close> are applied to the key itself.\<close>

definition infoOf :: "(string \<rightharpoonup> string) \<Rightarrow> ServerInfo" where
  "infoOf kv =
     \<lparr>NetFieldChk = atoint64Safe kv ''netfieldchk'',
      Protocol = atoi ''protocol'',
      SessionMode = atoi ''sessionmode'',
      Hostname = at kv ''hostname'',
      MapName = at kv ''mapname'',
      IsInGame = boolSafe ''isInGame'',
      MaxClients = atoi ''com_maxclients'',
      GameType = at kv ''gametype'',
      HW = atoi ''hw'',
      Mod = boolSafe ''mod'',
      Voice = boolSafe ''voice'',
      SecKey = at kv ''seckey'',
      SecID = at kv ''secid'',
      HostAddr = at kv ''hostaddr''\<rparr>"

definition GetInfo :: "RCONClient \<Rightarrow> world \<Rightarrow> (error + ServerInfo) \<times> world" where
  "GetInfo rc w =
     (if Conn rc = None then (Inl ErrNotEstablished, w)
      else case connWrite (sentinel @ ''getinfo'' @ ''\<newline>'') w of
             (Some err, w1) \<Rightarrow> (Inl err, w1)
           | (None, w1) \<Rightarrow>
               (case readResponse (timeoutOrDefault rc) defaultReadExtension w1 of
                  ((lines, Some err), w2) \<Rightarrow> (Inl err, w2)
                | ((lines, None), w2) \<Rightarrow>
                    if length lines = 0 then (Inl ErrEmptyInfo, w2)
                    else (Inr (infoOf (decodeKV (dataLineOf ''inforesponse'' lines))), w2)))"

text \<open>The struct \<^verbatim>\<open>ServerStatusInfo\<close>, without the time stamp. Its fields \<^verbatim>\<open>GameType\<close>,
  \<^verbatim>\<open>MapName\<close> and \<^verbatim>\<open>Protocol\<close> carry a prime here, apart from those of \<open>ServerInfo\<close>.\<close>

record ServerStatusInfo =
  ComMaxClients :: int
  GameType' :: string
  RandomSeed :: int
  GameName :: string
  MapName' :: string
  PlaylistEnabled :: bool
  PlaylistEntry :: int
  Protocol' :: int
  ScrTeamFFType :: int
  ShortVersion :: bool
  SvAllowAimAssist :: bool
  SvAllowAnonymous :: bool
  SvClientFpsLimit :: int
  SvDisableClientConsole :: bool
  SvHostname :: string
  SvMaxClients :: int
  SvMaxPing :: int
  SvMinPing :: int
  SvPatchDSR50 :: bool
  SvPrivateClients :: int
  SvPrivateClientsForUsers :: int
  SvPure :: bool
  SvVoice :: bool
  PasswordEnabled :: bool
  ModEnabled :: bool

definition statusInfoOf :: "(string \<rightharpoonup> string) \<Rightarrow> ServerStatusInfo" where
  "statusInfoOf kv =
     \<lparr>ComMaxClients = atoi ''com_maxclients'',
      GameType' = at kv ''g_gametype'',
      RandomSeed = atoi ''g_randomSeed'',
      GameName = at kv ''gamename'',
      MapName' = at kv ''mapname'',
      PlaylistEnabled = boolSafe ''playlist_enabled'',
      PlaylistEntry = atoi ''playlist_entry'',
      Protocol' = atoi ''protocol'',
      ScrTeamFFType = atoi ''scr_team_fftype'',
      ShortVersion = boolSafe ''shortversion'',
      SvAllowAimAssist = boolSafe ''sv_allowAimAssist'',
      SvAllowAnonymous = boolSafe ''sv_allowAnonymous'',
      SvClientFpsLimit = atoi ''sv_clientFpsLimit'',
      SvDisableClientConsole = boolSafe ''sv_disableClientConsole'',
      SvHostname = at kv ''sv_hostname'',
      SvMaxClients = atoi ''sv_maxclients'',
      SvMaxPing = atoi ''sv_maxPing'',
      SvMinPing = atoi ''sv_minPing'',
      SvPatchDSR50 = boolSafe ''sv_patch_dsr50'',
      SvPrivateClients = atoi ''sv_privateClients'',
      SvPrivateClientsForUsers =
        (case kv ''sv_privateClientsForClients'' of
           Some v \<Rightarrow> fst (Atoi v)
         | None \<Rightarrow> atoi ''sv_privateClientsForUsers''),
      SvPure = boolSafe ''sv_pure'',
      SvVoice = boolSafe ''sv_voice'',
      PasswordEnabled = boolSafe ''pswrd'',
      ModEnabled = boolSafe ''mod''\<rparr>"

definition GetStatus :: "RCONClient \<Rightarrow> world \<Rightarrow> (error + ServerStatusInfo) \<times> world" where
  "GetStatus rc w =
     (if Conn rc = None then (Inl ErrNotEstablished, w)
      else case connWrite (sentinel @ ''getstatus'' @ ''\<newline>'') w of
             (Some err, w1) \<Rightarrow> (Inl err, w1)
           | (None, w1) \<Rightarrow>
               (case readResponse (timeoutOrDefault rc) defaultReadExtension w1 of
                  ((lines, Some err), w2) \<Rightarrow> (Inl err, w2)
                | ((lines, None), w2) \<Rightarrow>
                    if length lines = 0 then (Inl ErrEmptyStatus, w2)
                    else (Inr (statusInfoOf (decodeKV (dataLineOf ''statusresponse'' lines))), w2)))"

section \<open>Case folding of a literal text\<close>

text \<open>
  Under the flag \<^verbatim>\<open>(?i)\<close> a literal rune of a pattern matches itself and every rune that
  \<^verbatim>\<open>unicode.SimpleFold\<close> reaches from it. That table of the Go library is a parameter
  here: a \<open>foldTable\<close> gives, for a rune, the other runes of its orbit. \<open>asciiFold\<close> is the
  part of the table for the letters of ASCII and the two runes that fold to them (U+017F
  to \<open>s\<close>, U+212A to \<open>k\<close>); it leaves every other rune alone.
\<close>

type_synonym foldTable = "int \<Rightarrow> int list"

definition asciiFold :: foldTable where
  "asciiFold r =
     (if 65 \<le> r \<and> r \<le> 90 then
        (r + 32) # (if r = 83 then [383] else if r = 75 then [8490] else [])
      else if 97 \<le> r \<and> r \<le> 122 then
        (r - 32) # (if r = 115 then [383] else if r = 107 then [8490] else [])
      else if r = 383 then [83, 115]
      else if r = 8490 then [75, 107]
      else [])"

fun Alts :: "rx list \<Rightarrow> rx" where
  "Alts [] = Eps"
| "Alts [r] = r"
| "Alts (r # rs) = Alt r (Alts rs)"

text \<open>The class of a rune and its orbit: the runes of one byte as a class of bytes, the
  longer ones as the alternatives of their bytes, and for U+FFFD (65533) also a byte
  that does not begin a rune.\<close>

definition foldRune :: "foldTable \<Rightarrow> int \<Rightarrow> rx" where
  "foldRune tab r =
     (let short = concat (map encodeRune (filter (\<lambda>q. q < 128) (r # tab r)));
          long = map (\<lambda>q. Lit (encodeRune q)) (filter (\<lambda>q. 128 \<le> q) (r # tab r))
                 @ (if 65533 \<in> set (r # tab r) then [Bad] else [])
      in if long = [] then Chr (In short)
         else if short = [] then Alts long
         else Alt (Chr (In short)) (Alts long))"

text \<open>A literal text of valid UTF-8 under \<^verbatim>\<open>(?i)\<close>.\<close>

definition LitFoldRunes :: "foldTable \<Rightarrow> string \<Rightarrow> rx" where
  "LitFoldRunes tab s = Seq (map (foldRune tab) (runesOf s))"

section \<open>The dvar query (commands.go)\<close>

text \<open>
  The two patterns of \<^verbatim>\<open>GetDvar\<close> for the name \<open>name\<close>, which \<^verbatim>\<open>regexp.QuoteMeta\<close> makes a
  literal text: \<^verbatim>\<open>(?i)^name\s+is:\s+"?(?P<val>.*?)"?(?:\s|$)\<close> and
  \<^verbatim>\<open>(?i)^name\s*[:=]\s*"?(?P<val>.*?)"?$\<close>. They compile when the name is valid UTF-8;
  the limit that the compiler puts on the size of a pattern (millions of runes) is
  left out.
\<close>

definition rx1 :: "foldTable \<Rightarrow> string \<Rightarrow> rx" where
  "rx1 tab name =
     Seq [Bol, LitFoldRunes tab name, Plus True clsSpace, LitFold ''is:'', Plus True clsSpace,
          Opt (Chr (In ''\"'')), Grp ''val'' (Star False clsAny), Opt (Chr (In ''\"'')),
          Alt (Chr clsSpace) Eol]"

definition rx2 :: "foldTable \<Rightarrow> string \<Rightarrow> rx" where
  "rx2 tab name =
     Seq [Bol, LitFoldRunes tab name, Star True clsSpace, Chr (In '':=''), Star True clsSpace,
          Opt (Chr (In ''\"'')), Grp ''val'' (Star False clsAny), Opt (Chr (In ''\"'')),
          Eol]"

definition pollution :: string where
  "pollution = ''sv_iw4madmin_in''"

definition maxAttempts :: nat where
  "maxAttempts = 3"

text \<open>The loop over the lines of one response: it returns the value of the first
  line that matches a pattern, or goes through all lines and keeps the first clean
  line it met in \<open>lastClean\<close>.\<close>

datatype scan = Found string | NotFound string

fun scanLines :: "rx \<Rightarrow> rx \<Rightarrow> string list \<Rightarrow> string \<Rightarrow> scan" where
  "scanLines r1 r2 [] lastClean = NotFound lastClean"
| "scanLines r1 r2 (line # ls) lastClean =
     (let clean = TrimSpace (stripColorCodes line)
      in if clean = [] then scanLines r1 r2 ls lastClean
         else case FindStringSubmatch r1 clean of
                Some m \<Rightarrow> Found (stripColorCodes (group m ''val''))
              | None \<Rightarrow>
                  (case FindStringSubmatch r2 clean of
                     Some m \<Rightarrow> Found (stripColorCodes (group m ''val''))
                   | None \<Rightarrow>
                       if \<not> Contains (ToLower clean) pollution
                       then scanLines r1 r2 ls (if lastClean = [] then clean else lastClean)
                       else scanLines r1 r2 ls lastClean))"

text \<open>The second loop over the lines: is there a line with the pollution token?\<close>

fun needRetry :: "string list \<Rightarrow> bool" where
  "needRetry [] = False"
| "needRetry (line # ls) = (if Contains (ToLower line) pollution then True else needRetry ls)"

text \<open>What follows the loop over the attempts.\<close>

definition dvarResult :: "string \<Rightarrow> string \<Rightarrow> error + string" where
  "dvarResult dvar lastClean = (if lastClean \<noteq> [] then Inr lastClean else Inl (ErrEmptyDvar dvar))"

function dvarLoop ::
  "RCONClient \<Rightarrow> string \<Rightarrow> rx \<Rightarrow> rx \<Rightarrow> nat \<Rightarrow> string \<Rightarrow> world \<Rightarrow> (error + string) \<times> world" where
  "dvarLoop rc dvar r1 r2 attempt lastClean w =
     (if attempt < maxAttempts then
        (case SendCommand rc dvar None [requireResponse] w of
           ((res, Some err), w1) \<Rightarrow> (Inl err, w1)
         | ((res, None), w1) \<Rightarrow>
             (case scanLines r1 r2 res lastClean of
                Found v \<Rightarrow> (Inr v, w1)
              | NotFound lastClean1 \<Rightarrow>
                  if \<not> needRetry res then (dvarResult dvar lastClean1, w1)
                  else dvarLoop rc dvar r1 r2 (attempt + 1) lastClean1
                         (sleep ((int attempt + 1) * 150 * Millisecond) w1)))
      else (dvarResult dvar lastClean, w))"
  by pat_completeness auto
termination
  by (relation "measure (\<lambda>(rc, dvar, r1, r2, attempt, lastClean, w). maxAttempts - attempt)") auto

declare dvarLoop.simps [simp del]

text \<open>\<open>tab\<close> is the case folding table of the Go library.\<close>

definition GetDvar ::
  "foldTable \<Rightarrow> RCONClient \<Rightarrow> string \<Rightarrow> world \<Rightarrow> (error + string) run \<times> world" where
  "GetDvar tab rc dvar w =
     (if dvar = [] then (Returns (Inl ErrDvarEmpty), w)
      else if \<not> validUTF8 (TrimSpace dvar) then (Panics BadPattern, w)
      else case dvarLoop rc dvar (rx1 tab (TrimSpace dvar)) (rx2 tab (TrimSpace dvar)) 0 [] w of
             (r, w1) \<Rightarrow> (Returns r, w1))"

section \<open>Construction (rcon.go)\<close>

text \<open>
  The network outside the program: for an address \<^verbatim>\<open>host:port\<close>, whether
  \<^verbatim>\<open>net.ResolveUDPAddr\<close> resolves it and whether \<^verbatim>\<open>net.DialUDP\<close> gets a socket for it.
\<close>

record network =
  resolves :: "string \<Rightarrow> bool"
  dials :: "string \<Rightarrow> bool"

text \<open>The decimal text of an integer, as \<^verbatim>\<open>%d\<close> prints it; \<open>decStr\<close> is for the
  numbers from 0 on.\<close>

function decStr :: "int \<Rightarrow> string" where
  "decStr i = (if i < 10 then [digits ! nat i] else decStr (i div 10) @ [digits ! nat (i mod 10)])"
  by pat_completeness auto
termination
  by (relation "measure nat") auto

declare decStr.simps [simp del]

definition intStr :: "int \<Rightarrow> string" where
  "intStr i = (if i < 0 then ''-'' @ decStr (- i) else decStr i)"

definition New :: "network \<Rightarrow> string \<Rightarrow> string \<Rightarrow> string \<Rightarrow> error + RCONClient" where
  "New net ip port password =
     (if password = [] then Inl ErrEmptyPassword
      else case Atoi port of
             (portNum, Some err) \<Rightarrow> Inl ErrInvalidPort
           | (portNum, None) \<Rightarrow>
               (let addr = ip @ '':'' @ intStr portNum
                in if \<not> resolves net addr then Inl ErrResolve
                   else if \<not> dials net addr then Inl ErrDial
                   else Inr \<lparr>IP = ip, Port = portNum, Password = password,
                             Timeout = defaultReadTimeout, Conn = Some (UDPConn addr)\<rparr>))"

text \<open>A network that knows the servers at the UDP ports of one host.\<close>

definition localNet :: network where
  "localNet =
     \<lparr>resolves = (\<lambda>a. case Cut a (CHR '':'') of
                         (host, port, found) \<Rightarrow>
                           found \<and> host = ''127.0.0.1'' \<and> snd (Atoi port) = None
                           \<and> 0 \<le> fst (Atoi port) \<and> fst (Atoi port) \<le> 65535),
      dials = (\<lambda>a. True)\<rparr>"

section \<open>The convenience commands (commands.go)\<close>






section \<open>Specification-level definitions and concrete inputs\<close>

subsection \<open>Responses for the normalisation\<close>

text \<open>The reply of the specification's example, and the accumulation of three
  datagrams of which the second prints nothing.\<close>

definition exampleReply :: string where
  "exampleReply =
     sentinel @ ''print\<newline>map: mp_nuketown\<newline>'' @ sentinel @ ''print\<newline>num score ping...''"

definition threeDatagrams :: string where
  "threeDatagrams =
     sentinel @ ''print\<newline>a\<newline>'' @ sentinel @ ''print\<newline>'' @ sentinel @ ''print\<newline>b\<newline>''"


subsection \<open>The row of the status table\<close>

definition statusRow :: string where
  "statusRow = ''0 0 bot LOAD abc123 PlayerOne 0 1.2.3.4:1234 5678 5000''"


subsection \<open>The key/value decoder in the words of the specification\<close>

text \<open>
  Colour codes: every caret with an ASCII letter or digit after it is removed with that
  character, the text being searched from left to right.
\<close>

definition colourCode :: rx where
  "colourCode = Cat (Chr (In ''^'')) (Chr (In (digits @ uppers @ lowers)))"

definition specStrip :: "string \<Rightarrow> string" where
  "specStrip s = ReplaceAllString colourCode [] s 0"

text \<open>
  The decoder as the specification words it: the line is split at the backslashes, an
  empty first element is dropped, the elements are paired by position (0/1, 2/3, ...)
  without an unpaired last one, and each value is stored under its key with the colour
  codes stripped.
\<close>

fun specPairs :: "string list \<Rightarrow> (string \<times> string) list" where
  "specPairs (k # v # rest) = (k, v) # specPairs rest"
| "specPairs rest = []"

definition specWordsStore ::
  "(string \<rightharpoonup> string) \<Rightarrow> string \<times> string \<Rightarrow> (string \<rightharpoonup> string)" where
  "specWordsStore kv p = kv(fst p \<mapsto> specStrip (snd p))"

definition specWordsDecode :: "string \<Rightarrow> (string \<rightharpoonup> string)" where
  "specWordsDecode dataLine =
     (case Split dataLine backslash of
        [] # rest \<Rightarrow> foldl specWordsStore Map.empty (specPairs rest)
      | parts \<Rightarrow> foldl specWordsStore Map.empty (specPairs parts))"

text \<open>
  The decoder of the amended claim: the key and the value of a pair are trimmed, a pair
  with an empty trimmed key is skipped, and the trimmed value is stored under the
  trimmed key with the colour codes stripped.
\<close>

definition specStore :: "(string \<rightharpoonup> string) \<Rightarrow> string \<times> string \<Rightarrow> (string \<rightharpoonup> string)" where
  "specStore kv p =
     (if TrimSpace (fst p) = [] then kv
      else kv(TrimSpace (fst p) \<mapsto> specStrip (TrimSpace (snd p))))"

definition specDecode :: "string \<Rightarrow> (string \<rightharpoonup> string)" where
  "specDecode dataLine =
     (case Split dataLine backslash of
        [] # rest \<Rightarrow> foldl specStore Map.empty (specPairs rest)
      | parts \<Rightarrow> foldl specStore Map.empty (specPairs parts))"

text \<open>The line of the claim; the same line with colour codes in the host name; and a
  line with a blank after the host name and a pair without a key.\<close>

definition infoLine :: string where
  "infoLine =
     [backslash] @ ''hostname'' @ [backslash] @ ''My Server'' @ [backslash] @ ''mapname''
       @ [backslash] @ ''mp_nuketown'' @ [backslash]"


definition colouredLine :: string where
  "colouredLine =
     [backslash] @ ''hostname'' @ [backslash] @ ''^1My ^7Server'' @ [backslash] @ ''mapname''
       @ [backslash] @ ''mp_nuketown'' @ [backslash]"

definition spacedLine :: string where
  "spacedLine =
     [backslash] @ ''hostname'' @ [backslash] @ ''My Server '' @ [backslash] @ [backslash] @ ''x''"

definition maxClientsLine :: string where
  "maxClientsLine =
     [backslash] @ ''com_maxclients'' @ [backslash] @ ''18'' @ [backslash] @ ''voice''
       @ [backslash] @ ''1''"

subsection \<open>The dvar fallback in the words of the specification\<close>

text \<open>
  A line as \<^verbatim>\<open>GetDvar\<close> looks at it (colour codes stripped, then trimmed); the responses
  of which neither pattern matches a line; the responses that contain the pollution
  token; the first line that is not empty and free of the pollution token (the empty
  string when there is none); and the answer made of it.
\<close>

definition cleanOf :: "string \<Rightarrow> string" where
  "cleanOf line = TrimSpace (specStrip line)"

definition noMatch :: "foldTable \<Rightarrow> string \<Rightarrow> string list \<Rightarrow> bool" where
  "noMatch tab dvar ls =
     list_all (\<lambda>line. cleanOf line = []
                 \<or> (FindStringSubmatch (rx1 tab (TrimSpace dvar)) (cleanOf line) = None
                    \<and> FindStringSubmatch (rx2 tab (TrimSpace dvar)) (cleanOf line) = None)) ls"

definition specPolluted :: "string list \<Rightarrow> bool" where
  "specPolluted ls = list_ex (\<lambda>line. Contains (ToLower line) ''sv_iw4madmin_in'') ls"

fun firstClean :: "string list \<Rightarrow> string" where
  "firstClean [] = []"
| "firstClean (line # ls) =
     (if cleanOf line \<noteq> [] \<and> \<not> Contains (ToLower (cleanOf line)) ''sv_iw4madmin_in''
      then cleanOf line else firstClean ls)"

definition specAnswer :: "string \<Rightarrow> string list \<Rightarrow> error + string" where
  "specAnswer dvar ls =
     (if firstClean ls \<noteq> [] then Inr (firstClean ls) else Inl (ErrEmptyDvar dvar))"

text \<open>Three polluted replies, each with an unrelated line, and a clean reply that
  would come fourth; and the worlds after each exchange.\<close>

definition polluted :: "string \<Rightarrow> recv" where
  "polluted other = Datagram (sentinel @ ''print\<newline>sv_iw4madmin_in something\<newline>'' @ other)"

definition cleanReply :: recv where
  "cleanReply = Datagram (sentinel @ ''print\<newline>sv_maxclients is: \"18\"'')"

definition pollutedWorld :: world where
  "pollutedWorld =
     quiet\<lparr>reads :=
       [polluted ''g_gametype: tdm'', Failure ErrTimeout,
        polluted ''unrelated'', Failure ErrTimeout,
        polluted ''unrelated'', Failure ErrTimeout,
        cleanReply]\<rparr>"

definition dvarCycle :: "event list" where
  "dvarCycle =
     [Wrote (packetOf (payloadOf rc0 ''sv_maxclients'' None)),
      Deadline 1000000000, Deadline 350000000]"

definition afterFirst :: world where
  "afterFirst =
     \<lparr>closed = False, writes = [],
      reads = [polluted ''unrelated'', Failure ErrTimeout,
               polluted ''unrelated'', Failure ErrTimeout, cleanReply],
      trace = dvarCycle\<rparr>"

definition afterSecond :: world where
  "afterSecond =
     \<lparr>closed = False, writes = [],
      reads = [polluted ''unrelated'', Failure ErrTimeout, cleanReply],
      trace = dvarCycle @ Slept 150000000 # dvarCycle\<rparr>"

definition afterThird :: world where
  "afterThird =
     \<lparr>closed = False, writes = [], reads = [cleanReply],
      trace = dvarCycle @ Slept 150000000 # dvarCycle @ Slept 300000000 # dvarCycle\<rparr>"


text \<open>A reply that no pattern matches and that is free of the token, and the world after
  the exchange; and a server that only ever sends the polluting line.\<close>

definition unknownWorld :: world where
  "unknownWorld =
     quiet\<lparr>reads := [Datagram (sentinel @ ''print\<newline>^1Unknown command ^7sv_maxclient''),
                    Failure ErrTimeout, cleanReply]\<rparr>"

definition afterUnknown :: world where
  "afterUnknown = \<lparr>closed = False, writes = [], reads = [cleanReply], trace = dvarCycle\<rparr>"

definition onlyPollutedWorld :: world where
  "onlyPollutedWorld =
     quiet\<lparr>reads := [polluted [], Failure ErrTimeout, polluted [], Failure ErrTimeout,
                    polluted [], Failure ErrTimeout, cleanReply]\<rparr>"

subsection \<open>The result of a command that requires a response\<close>

text \<open>
  What \<^verbatim>\<open>SendCommand\<close> returns for the outcomes of its attempts, in order, when a response
  is required: the lines of the first attempt that has some; the error of the first
  accumulation that fails otherwise than by a timeout; and when the attempts are used
  up, the last error of a write or a timeout, or \<open>ErrNoResponse\<close> when there was none.
\<close>

fun specRequired :: "string \<Rightarrow> error option \<Rightarrow> outcome list \<Rightarrow> lines_result" where
  "specRequired cmd lerr [] =
     ([], Some (case lerr of Some e \<Rightarrow> e | None \<Rightarrow> ErrNoResponse cmd))"
| "specRequired cmd lerr (GotLines res # rest) = (res, None)"
| "specRequired cmd lerr (ReadFailed e # rest) = ([], Some e)"
| "specRequired cmd lerr (WriteFailed e # rest) = specRequired cmd (Some e) rest"
| "specRequired cmd lerr (TimedOut e # rest) = specRequired cmd (Some e) rest"
| "specRequired cmd lerr (NoLines # rest) = specRequired cmd lerr rest"

text \<open>A server that is silent for three attempts and refuses the fourth; and one that
  refuses after it has sent a line.\<close>

definition refusedLast :: world where
  "refusedLast =
     quiet\<lparr>reads := [Failure ErrTimeout, Failure ErrTimeout, Failure ErrTimeout,
                    Failure (ErrIO ''connection refused'')]\<rparr>"

definition refusedAfterData :: world where
  "refusedAfterData =
     quiet\<lparr>reads := [Datagram (sentinel @ ''infoResponse\<newline>'' @ infoLine),
                    Failure (ErrIO ''connection refused'')]\<rparr>"

text \<open>The writes and the sleeps of a trace.\<close>

fun isWrote :: "event \<Rightarrow> bool" where
  "isWrote (Wrote p) = True"
| "isWrote e = False"

fun isSlept :: "event \<Rightarrow> bool" where
  "isSlept (Slept d) = True"
| "isSlept e = False"

subsection \<open>Clients and worlds for the query operations\<close>

text \<open>The two query datagrams; a client whose socket is nil; a world whose first write
  fails, one whose server replies with an empty print, and one whose server replies
  to \<^verbatim>\<open>getinfo\<close> and then stays silent.\<close>

definition infoPacket :: string where "infoPacket = sentinel @ ''getinfo'' @ ''\<newline>''"
definition statusPacket :: string where "statusPacket = sentinel @ ''getstatus'' @ ''\<newline>''"

definition repliedWorld :: world where
  "repliedWorld =
     quiet\<lparr>reads := [Datagram (sentinel @ ''infoResponse\<newline>'' @ infoLine), Failure ErrTimeout]\<rparr>"


definition unreachable :: world where
  "unreachable = quiet\<lparr>writes := [Some (ErrIO ''network is unreachable'')]\<rparr>"

definition emptyReply :: world where
  "emptyReply = quiet\<lparr>reads := [Datagram (sentinel @ printNL)]\<rparr>"

section \<open>Verification\<close>

subsection \<open>The command executor\<close>

lemma sendLoop_silent:
  "\<not> requireSuccess s \<Longrightarrow> attemptsFrom s p i w = map WriteFailed es @ TimedOut e # rest \<Longrightarrow>
   fst (sendLoop s p i lerr w) = Returned ([], None)"
proof (induction es arbitrary: i lerr w)
  case Nil
  then show ?case
    apply (subst sendLoop.simps)
    apply (subst (asm) attemptsFrom.simps)
    apply (auto simp: oneAttempt_def isTimeout_def split: if_splits prod.splits option.splits)
    done
next
  case (Cons x es)
  then show ?case
    apply (subst sendLoop.simps)
    apply (subst (asm) (2) attemptsFrom.simps)
    apply (auto simp: oneAttempt_def isTimeout_def split: if_splits prod.splits option.splits)
    done
qed

lemma attemptsFrom_length: "length (attemptsFrom s p i w) = nat (retries s + 1 - i)"
proof (induction s p i w rule: attemptsFrom.induct)
  case (1 s p i w)
  show ?case
  proof (cases "i \<le> retries s")
    case True
    have "nat (retries s + 1 - i) = Suc (nat (retries s + 1 - (i + 1)))"
      using True by simp
    with "1.IH" [OF True] True show ?thesis
      by (subst attemptsFrom.simps) simp
  next
    case False
    then show ?thesis by (subst attemptsFrom.simps) simp
  qed
qed

lemma sendLoop_required:
  "requireSuccess s \<Longrightarrow>
   (case fst (sendLoop s p i lerr w) of
      Returned r \<Rightarrow> r
    | Exhausted l \<Rightarrow> ([], Some (case l of Some e \<Rightarrow> e | None \<Rightarrow> ErrNoResponse cmd)))
     = specRequired cmd lerr (attemptsFrom s p i w)"
proof (induction s p i w arbitrary: lerr rule: attemptsFrom.induct)
  case (1 s p i w)
  show ?case
  proof (cases "i \<le> retries s")
    case False
    then show ?thesis
      by (subst sendLoop.simps, subst attemptsFrom.simps) simp
  next
    case True
    note IH = "1.IH" [OF True "1.prems"]
    show ?thesis
      apply (subst sendLoop.simps)
      apply (subst attemptsFrom.simps)
      using True IH "1.prems"
      apply (auto simp: oneAttempt_def isTimeout_def split: prod.splits option.splits if_splits)
      done
  qed
qed

lemma sendLoop_required_result:
  "requireSuccess s \<Longrightarrow> sendLoop s p i lerr w = (Returned (res, err), w') \<Longrightarrow>
   (res \<noteq> [] \<and> err = None) \<or> (res = [] \<and> err \<noteq> None)"
proof (induction s p i lerr w rule: sendLoop.induct)
  case (1 s packet i lerr w)
  from "1.prems"(2) show ?case
    apply (subst (asm) sendLoop.simps)
    using "1.IH" "1.prems"(1)
    apply (auto split: if_splits prod.splits option.splits)
    done
qed

text \<open>
  C1. A command sent without \<open>requireSuccess\<close> to a server that never replies: once a
  write of the call has gone through (after any number of failed writes) and its
  accumulation ends in a timeout with nothing accumulated, \<^verbatim>\<open>SendCommand\<close> returns the
  empty result and no error.
\<close>

theorem SendCommand_silent_server:
  assumes "Conn rc \<noteq> None"
    and "\<not> requireSuccess (settingsOf rc opts)"
    and "attemptsFrom (settingsOf rc opts) (packetOf (payloadOf rc cmd args)) 0 w
           = map WriteFailed es @ TimedOut e # rest"
  shows "fst (SendCommand rc cmd args opts w) = ([], None)"
proof -
  have "fst (sendLoop (settingsOf rc opts) (packetOf (payloadOf rc cmd args)) 0 None w)
          = Returned ([], None)"
    using assms(2,3) by (rule sendLoop_silent)
  with assms(1) show ?thesis
    by (auto simp: SendCommand_def Let_def split: prod.splits)
qed

theorem SendCommand_silent_server_witness:
  "Conn rc0 \<noteq> None
   \<and> \<not> requireSuccess (settingsOf rc0 [])
   \<and> attemptsFrom (settingsOf rc0 []) (packetOf (payloadOf rc0 ''say'' (Some ''hi''))) 0
        (quiet\<lparr>writes := [Some (ErrIO ''network is unreachable'')]\<rparr>)
       = map WriteFailed [ErrIO ''network is unreachable'']
         @ TimedOut ErrTimeout # [TimedOut ErrTimeout, TimedOut ErrTimeout]
   \<and> fst (SendCommand rc0 ''say'' (Some ''hi'') []
            (quiet\<lparr>writes := [Some (ErrIO ''network is unreachable'')]\<rparr>)) = ([], None)"
proof -
  have a: "Conn rc0 \<noteq> None" by (simp add: rc0_def)
  have b: "\<not> requireSuccess (settingsOf rc0 [])" by (simp add: settingsOf_def)
  have c: "attemptsFrom (settingsOf rc0 []) (packetOf (payloadOf rc0 ''say'' (Some ''hi''))) 0
        (quiet\<lparr>writes := [Some (ErrIO ''network is unreachable'')]\<rparr>)
       = map WriteFailed [ErrIO ''network is unreachable'']
         @ TimedOut ErrTimeout # [TimedOut ErrTimeout, TimedOut ErrTimeout]"
    by code_simp
  show ?thesis
    using a b c SendCommand_silent_server [OF a b c] by simp
qed

text \<open>
  C2, as stated, fails: an accumulation that ends in a read error other than a timeout
  makes \<^verbatim>\<open>SendCommand\<close> return that error at once, whatever was remembered. Here three
  attempts time out and the fourth is refused: none of the \<open>retries + 1 = 4\<close> attempts has
  produced a line, and the call returns the refusal, not the remembered timeout.
\<close>

theorem required_read_error_counterexample:
  "requireSuccess (settingsOf rc0 [requireResponse])
   \<and> retries (settingsOf rc0 [requireResponse]) + 1 = 4
   \<and> attemptsFrom (settingsOf rc0 [requireResponse]) (packetOf (payloadOf rc0 ''status'' None)) 0
        refusedLast
       = [TimedOut ErrTimeout, TimedOut ErrTimeout, TimedOut ErrTimeout,
          ReadFailed (ErrIO ''connection refused'')]
   \<and> fst (SendCommand rc0 ''status'' None [requireResponse] refusedLast)
       = ([], Some (ErrIO ''connection refused''))
   \<and> fst (SendCommand rc0 ''status'' None [requireResponse] refusedLast) \<noteq> ([], Some ErrTimeout)"
  by code_simp

text \<open>
  C2, amended. With \<open>requireSuccess\<close>, \<^verbatim>\<open>SendCommand\<close> returns what the outcomes of its
  attempts determine, in their order: the lines of the first attempt that has some,
  without an error; the error of the first accumulation that fails otherwise than by a
  timeout, returned by that attempt; and when all \<open>retries + 1\<close> attempts are used up, the
  last remembered error of a write or a timeout, or \<open>ErrNoResponse cmd\<close> when none was
  remembered. So a call that produces no line fails with a non-nil error.
\<close>

theorem SendCommand_required_result:
  assumes "Conn rc \<noteq> None"
    and "requireSuccess (settingsOf rc opts)"
  shows "fst (SendCommand rc cmd args opts w)
           = specRequired cmd None
               (attemptsFrom (settingsOf rc opts) (packetOf (payloadOf rc cmd args)) 0 w)
       \<and> length (attemptsFrom (settingsOf rc opts) (packetOf (payloadOf rc cmd args)) 0 w)
           = nat (retries (settingsOf rc opts) + 1)
       \<and> (fst (fst (SendCommand rc cmd args opts w)) \<noteq> []
            \<and> snd (fst (SendCommand rc cmd args opts w)) = None
          \<or> fst (fst (SendCommand rc cmd args opts w)) = []
            \<and> snd (fst (SendCommand rc cmd args opts w)) \<noteq> None)"
proof (intro conjI)
  let ?s = "settingsOf rc opts" and ?p = "packetOf (payloadOf rc cmd args)"
  show "fst (SendCommand rc cmd args opts w) = specRequired cmd None (attemptsFrom ?s ?p 0 w)"
    using assms sendLoop_required [OF assms(2), where p = ?p and i = 0 and lerr = None
        and w = w and cmd = cmd]
    by (auto simp: SendCommand_def Let_def split: prod.splits loopExit.splits option.splits)
  show "length (attemptsFrom ?s ?p 0 w) = nat (retries ?s + 1)"
    using attemptsFrom_length [of ?s ?p 0 w] by simp
  obtain x w1 where x: "sendLoop ?s ?p 0 None w = (x, w1)" by (cases "sendLoop ?s ?p 0 None w")
  show "fst (fst (SendCommand rc cmd args opts w)) \<noteq> []
            \<and> snd (fst (SendCommand rc cmd args opts w)) = None
          \<or> fst (fst (SendCommand rc cmd args opts w)) = []
            \<and> snd (fst (SendCommand rc cmd args opts w)) \<noteq> None"
  proof (cases x)
    case (Returned r)
    obtain res err where r: "r = (res, err)" by (cases r)
    from sendLoop_required_result [OF assms(2) x [unfolded Returned r]]
    show ?thesis using assms x Returned r by (auto simp: SendCommand_def Let_def)
  next
    case (Exhausted lerr)
    then show ?thesis using assms x by (auto simp: SendCommand_def Let_def)
  qed
qed

theorem SendCommand_required_result_witness:
  "Conn rc0 \<noteq> None
   \<and> requireSuccess (settingsOf rc0 [requireResponse])
   \<and> fst (SendCommand rc0 ''status'' None [requireResponse] refusedLast)
       = ([], Some (ErrIO ''connection refused''))
   \<and> fst (SendCommand rc0 ''status'' None [requireResponse]
            (quiet\<lparr>writes := [Some (ErrIO ''refused'')], reads := [Datagram sentinel]\<rparr>))
       = ([], Some ErrTimeout)
   \<and> fst (SendCommand rc0 ''status'' None [requireResponse]
            (quiet\<lparr>reads := [Datagram sentinel, Failure ErrTimeout, Datagram sentinel,
                             Failure ErrTimeout, Datagram sentinel, Failure ErrTimeout,
                             Datagram sentinel]\<rparr>))
       = ([], Some (ErrNoResponse ''status''))
   \<and> fst (SendCommand rc0 ''status'' None [requireResponse]
            (quiet\<lparr>writes := [None, None, None, Some (ErrIO ''refused'')]\<rparr>))
       = ([], Some (ErrIO ''refused''))"
proof -
  let ?s = "settingsOf rc0 [requireResponse]" and ?p = "packetOf (payloadOf rc0 ''status'' None)"
  let ?w1 = "quiet\<lparr>writes := [Some (ErrIO ''refused'')], reads := [Datagram sentinel]\<rparr>"
  let ?w2 = "quiet\<lparr>reads := [Datagram sentinel, Failure ErrTimeout, Datagram sentinel,
                             Failure ErrTimeout, Datagram sentinel, Failure ErrTimeout,
                             Datagram sentinel]\<rparr>"
  let ?w3 = "quiet\<lparr>writes := [None, None, None, Some (ErrIO ''refused'')]\<rparr>"
  have a: "Conn rc0 \<noteq> None" by (simp add: rc0_def)
  have b: "requireSuccess ?s" by (simp add: settingsOf_def requireResponse_def)
  have c0: "attemptsFrom ?s ?p 0 refusedLast
       = [TimedOut ErrTimeout, TimedOut ErrTimeout, TimedOut ErrTimeout,
          ReadFailed (ErrIO ''connection refused'')]"
    by code_simp
  have c1: "attemptsFrom ?s ?p 0 ?w1
       = [WriteFailed (ErrIO ''refused''), NoLines, TimedOut ErrTimeout, TimedOut ErrTimeout]"
    by code_simp
  have c2: "attemptsFrom ?s ?p 0 ?w2 = [NoLines, NoLines, NoLines, NoLines]"
    by code_simp
  have c3: "attemptsFrom ?s ?p 0 ?w3
       = [TimedOut ErrTimeout, TimedOut ErrTimeout, TimedOut ErrTimeout,
          WriteFailed (ErrIO ''refused'')]"
    by code_simp
  note t = SendCommand_required_result [OF a b, of "''status''" None]
  have r0: "fst (SendCommand rc0 ''status'' None [requireResponse] refusedLast)
       = ([], Some (ErrIO ''connection refused''))"
    using t [of refusedLast] by (simp add: c0)
  have r1: "fst (SendCommand rc0 ''status'' None [requireResponse] ?w1) = ([], Some ErrTimeout)"
    using t [of ?w1] by (simp add: c1)
  have r2: "fst (SendCommand rc0 ''status'' None [requireResponse] ?w2)
       = ([], Some (ErrNoResponse ''status''))"
    using t [of ?w2] by (simp add: c2)
  have r3: "fst (SendCommand rc0 ''status'' None [requireResponse] ?w3)
       = ([], Some (ErrIO ''refused''))"
    using t [of ?w3] by (simp add: c3)
  from a b r0 r1 r2 r3 show ?thesis by (intro conjI)
qed

subsection \<open>Normalisation\<close>

text \<open>The example of the specification normalises to its two logical lines.\<close>

lemma normalizeRCON_example:
  "normalizeRCON exampleReply = ''map: mp_nuketown\<newline>num score ping...''
   \<and> splitNonEmptyLines (normalizeRCON exampleReply) = [''map: mp_nuketown'', ''num score ping...'']"
  by code_simp


text \<open>
  C3. Normalisation does not collapse every embedded marker: of two adjacent ones (a
  datagram that prints nothing, between two others) the second leaves the line
  \<^verbatim>\<open>print\<close> in the result.
\<close>

theorem normalizeRCON_adjacent_markers:
  "normalizeRCON threeDatagrams = ''a\<newline>print\<newline>b''
   \<and> splitNonEmptyLines (normalizeRCON threeDatagrams) = [''a'', ''print'', ''b'']
   \<and> Contains (normalizeRCON threeDatagrams) ''\<newline>print\<newline>''"
  by code_simp


subsection \<open>The status table\<close>

text \<open>
  C4. The row \<^verbatim>\<open>0 0 bot LOAD abc123 PlayerOne 0 1.2.3.4:1234 5678 5000\<close> is decoded to
  exactly one player: slot 0, score 0, ping the string \<^verbatim>\<open>LOAD\<close>, GUID \<^verbatim>\<open>abc123\<close>, name
  \<^verbatim>\<open>PlayerOne\<close>, address 1.2.3.4, port 1234, query port 5678, rate 5000, last message 0;
  and so it is by \<^verbatim>\<open>Status\<close> when the server replies with this row.
\<close>

theorem Status_row_decoded:
  "playersOf [statusRow] =
     [\<lparr>ClientNum = 0, Name = ''PlayerOne'', Ping = PingString ''LOAD'', Score = 0,
       PlayerIP = ''1.2.3.4'', PlayerPort = 1234, QPort = 5678, GUID = ''abc123'',
       LastMsg = 0, Rate = 5000\<rparr>]
   \<and> fst (Status rc0 (quiet\<lparr>reads := [Datagram (sentinel @ printNL @ statusRow)]\<rparr>)) =
       Inr \<lparr>Map = [],
            Players =
              [\<lparr>ClientNum = 0, Name = ''PlayerOne'', Ping = PingString ''LOAD'', Score = 0,
                PlayerIP = ''1.2.3.4'', PlayerPort = 1234, QPort = 5678, GUID = ''abc123'',
                LastMsg = 0, Rate = 5000\<rparr>],
            Raw = [statusRow]\<rparr>"
  by code_simp

subsection \<open>The key/value blocks\<close>

text \<open>The loop that strips the colour codes is the replacement of every match of the
  pattern \<^verbatim>\<open>\^[0-9A-Za-z]\<close> by the empty text.\<close>

lemma matchLen_colourCode:
  "matchLen colourCode s pos =
     (case s of
        c # d # cs \<Rightarrow> if c = CHR ''^'' \<and> isAlnum d then Some 2 else None
      | cs \<Rightarrow> None)"
  by (auto simp: matchLen_def colourCode_def isAlnum_def split: list.splits)

lemma stripColorCodes_spec: "stripColorCodes s = specStrip s"
proof -
  have "stripColorCodes s = ReplaceAllString colourCode [] s pos" for pos
    by (induction s arbitrary: pos rule: stripColorCodes.induct)
       (simp_all add: matchLen_colourCode)
  then show ?thesis by (simp add: specStrip_def)
qed


lemma specPairs_drop:
  "i + 1 < length parts \<Longrightarrow>
   specPairs (drop i parts) = (parts ! i, parts ! (i + 1)) # specPairs (drop (i + 2) parts)"
proof -
  assume a: "i + 1 < length parts"
  then have "drop i parts = parts ! i # drop (Suc i) parts"
    by (simp add: Cons_nth_drop_Suc)
  moreover from a have "drop (Suc i) parts = parts ! (i + 1) # drop (i + 2) parts"
    by (simp add: Cons_nth_drop_Suc)
  ultimately show ?thesis by simp
qed

lemma specPairs_short: "\<not> i + 1 < length parts \<Longrightarrow> specPairs (drop i parts) = []"
proof -
  assume "\<not> i + 1 < length parts"
  then have "length (drop i parts) \<le> 1" by simp
  then show ?thesis by (cases "drop i parts" rule: specPairs.cases) auto
qed

lemma specStore_pair:
  "specStore kv (k, v) =
     (if TrimSpace k = [] then kv else kv(TrimSpace k \<mapsto> specStrip (TrimSpace v)))"
  by (simp add: specStore_def)

lemma kvLoop_spec: "kvLoop parts i kv = foldl specStore kv (specPairs (drop i parts))"
proof (induction parts i kv rule: kvLoop.induct)
  case (1 parts i kv)
  show ?case
  proof (cases "i + 1 < length parts")
    case more: True
    let ?key = "TrimSpace (parts ! i)" and ?val = "TrimSpace (parts ! (i + 1))"
    show ?thesis
    proof (cases "?key = []")
      case True
      have "kvLoop parts i kv = kvLoop parts (i + 2) kv"
        using more True by (subst kvLoop.simps) (simp add: Let_def)
      also have "\<dots> = foldl specStore kv (specPairs (drop (i + 2) parts))"
        using "1.IH"(1) [OF more refl refl True] .
      finally show ?thesis
        using more True by (simp add: specPairs_drop specStore_pair)
    next
      case False
      have "kvLoop parts i kv = kvLoop parts (i + 2) (kv(?key \<mapsto> stripColorCodes ?val))"
        using more False by (subst kvLoop.simps) (simp add: Let_def)
      also have "\<dots> = foldl specStore (kv(?key \<mapsto> stripColorCodes ?val))
                          (specPairs (drop (i + 2) parts))"
        using "1.IH"(2) [OF more refl refl False] .
      finally show ?thesis
        using more False by (simp add: specPairs_drop specStore_pair stripColorCodes_spec)
    qed
  next
    case False
    then show ?thesis
      by (subst kvLoop.simps) (simp add: specPairs_short)
  qed
qed

lemma decodeKV_spec: "decodeKV dataLine = specDecode dataLine"
proof (cases "Split dataLine backslash")
  case Nil
  then show ?thesis by (simp add: decodeKV_def specDecode_def kvLoop_spec)
next
  case (Cons p ps)
  then show ?thesis
    by (cases p) (simp_all add: decodeKV_def specDecode_def kvLoop_spec)
qed

lemma decodeKV_infoLine:
  "decodeKV infoLine = [''hostname'' \<mapsto> ''My Server'', ''mapname'' \<mapsto> ''mp_nuketown'']"
proof -
  have s: "Split infoLine backslash = [[], ''hostname'', ''My Server'', ''mapname'', ''mp_nuketown'', []]"
    by code_simp
  have t: "TrimSpace ''hostname'' = ''hostname''" "TrimSpace ''My Server'' = ''My Server''"
    "TrimSpace ''mapname'' = ''mapname''" "TrimSpace ''mp_nuketown'' = ''mp_nuketown''"
    by code_simp+
  have c: "specStrip ''My Server'' = ''My Server''"
    "specStrip ''mp_nuketown'' = ''mp_nuketown''"
    by code_simp+
  show ?thesis
    by (simp add: decodeKV_spec specDecode_def s specStore_pair t c)
qed

text \<open>
  C5, as stated, fails: the decoder also trims each key and each value, and stores
  nothing for a key that is empty once trimmed. On the line \<^verbatim>\<open>\hostname\My Server \\x\<close>
  the decoder of the claim (split, drop an empty first element, pair by position, strip
  the colour codes of each value) binds \<^verbatim>\<open>hostname\<close> to the value with its trailing space
  and the empty key to \<^verbatim>\<open>x\<close>; the code binds \<^verbatim>\<open>hostname\<close> to \<^verbatim>\<open>My Server\<close> and has no
  binding for the empty key.
\<close>

theorem decodeKV_untrimmed_counterexample:
  "specWordsDecode spacedLine ''hostname'' = Some ''My Server ''
   \<and> decodeKV spacedLine ''hostname'' = Some ''My Server''
   \<and> specWordsDecode spacedLine [] = Some ''x''
   \<and> decodeKV spacedLine [] = None
   \<and> decodeKV spacedLine \<noteq> specWordsDecode spacedLine"
proof -
  have a: "specWordsDecode spacedLine ''hostname'' = Some ''My Server ''" by code_simp
  have b: "decodeKV spacedLine ''hostname'' = Some ''My Server''" by code_simp
  have c: "specWordsDecode spacedLine [] = Some ''x''" by code_simp
  have d: "decodeKV spacedLine [] = None" by code_simp
  from c d have "decodeKV spacedLine \<noteq> specWordsDecode spacedLine" by auto
  with a b c d show ?thesis by (intro conjI)
qed

lemma decodeKV_colouredLine:
  "decodeKV colouredLine = [''hostname'' \<mapsto> ''My Server'', ''mapname'' \<mapsto> ''mp_nuketown'']"
proof -
  have s: "Split colouredLine backslash
             = [[], ''hostname'', ''^1My ^7Server'', ''mapname'', ''mp_nuketown'', []]"
    by code_simp
  have t: "TrimSpace ''hostname'' = ''hostname''" "TrimSpace ''^1My ^7Server'' = ''^1My ^7Server''"
    "TrimSpace ''mapname'' = ''mapname''" "TrimSpace ''mp_nuketown'' = ''mp_nuketown''"
    by code_simp+
  have c: "specStrip ''^1My ^7Server'' = ''My Server''"
    "specStrip ''mp_nuketown'' = ''mp_nuketown''"
    by code_simp+
  show ?thesis
    by (simp add: decodeKV_spec specDecode_def s specStore_pair t c)
qed

lemma decodeKV_spacedLine: "decodeKV spacedLine = [''hostname'' \<mapsto> ''My Server'']"
proof -
  have s: "Split spacedLine backslash = [[], ''hostname'', ''My Server '', [], ''x'']"
    by code_simp
  have t: "TrimSpace ''hostname'' = ''hostname''" "TrimSpace ''My Server '' = ''My Server''"
    "TrimSpace [] = []"
    by code_simp+
  have c: "specStrip ''My Server'' = ''My Server''"
    by code_simp
  show ?thesis
    by (simp add: decodeKV_spec specDecode_def s specStore_pair t c)
qed

text \<open>
  C5, amended. The decoder splits the data line at the backslashes, drops an empty
  first element, pairs the remaining elements by position (an unpaired last element is
  dropped), trims the key and the value of each pair, skips a pair whose trimmed key is
  empty, and stores the trimmed value with every colour code (a caret followed by a
  letter or digit) removed. The line \<^verbatim>\<open>\hostname\My Server\mapname\mp_nuketown\\<close> binds
  \<^verbatim>\<open>hostname\<close> to \<^verbatim>\<open>My Server\<close> and \<^verbatim>\<open>mapname\<close> to \<^verbatim>\<open>mp_nuketown\<close> and nothing else, the
  line \<^verbatim>\<open>\hostname\^1My ^7Server\mapname\mp_nuketown\\<close> gives the same bindings, and
  \<^verbatim>\<open>GetInfo\<close> returns the two fields without an error.
\<close>

theorem decodeKV_pairs:
  "decodeKV dataLine = specDecode dataLine
   \<and> specPairs (concat (map (\<lambda>(k, v). [k, v]) kvs)) = kvs
   \<and> specPairs (concat (map (\<lambda>(k, v). [k, v]) kvs) @ [x]) = kvs
   \<and> decodeKV infoLine = [''hostname'' \<mapsto> ''My Server'', ''mapname'' \<mapsto> ''mp_nuketown'']
   \<and> decodeKV colouredLine = [''hostname'' \<mapsto> ''My Server'', ''mapname'' \<mapsto> ''mp_nuketown'']
   \<and> decodeKV spacedLine = [''hostname'' \<mapsto> ''My Server'']
   \<and> Hostname (infoOf (decodeKV infoLine)) = ''My Server''
   \<and> MapName (infoOf (decodeKV infoLine)) = ''mp_nuketown''
   \<and> fst (GetInfo rc0 (quiet\<lparr>reads := [Datagram (sentinel @ ''infoResponse\<newline>'' @ infoLine)]\<rparr>))
       = Inr (infoOf [''hostname'' \<mapsto> ''My Server'', ''mapname'' \<mapsto> ''mp_nuketown''])"
proof (intro conjI)
  show "decodeKV dataLine = specDecode dataLine" by (rule decodeKV_spec)
  show "specPairs (concat (map (\<lambda>(k, v). [k, v]) kvs)) = kvs"
    by (induction kvs) auto
  show "specPairs (concat (map (\<lambda>(k, v). [k, v]) kvs) @ [x]) = kvs"
    by (induction kvs) auto
  show "decodeKV infoLine = [''hostname'' \<mapsto> ''My Server'', ''mapname'' \<mapsto> ''mp_nuketown'']"
    by (rule decodeKV_infoLine)
  show "decodeKV colouredLine = [''hostname'' \<mapsto> ''My Server'', ''mapname'' \<mapsto> ''mp_nuketown'']"
    by (rule decodeKV_colouredLine)
  show "decodeKV spacedLine = [''hostname'' \<mapsto> ''My Server'']"
    by (rule decodeKV_spacedLine)
  show "Hostname (infoOf (decodeKV infoLine)) = ''My Server''"
    by (simp add: decodeKV_infoLine infoOf_def at_def)
  show "MapName (infoOf (decodeKV infoLine)) = ''mp_nuketown''"
    by (simp add: decodeKV_infoLine infoOf_def at_def)
  have "fst (GetInfo rc0 (quiet\<lparr>reads := [Datagram (sentinel @ ''infoResponse\<newline>'' @ infoLine)]\<rparr>))
          = Inr (infoOf (decodeKV infoLine))"
    by code_simp
  then show "fst (GetInfo rc0 (quiet\<lparr>reads := [Datagram (sentinel @ ''infoResponse\<newline>'' @ infoLine)]\<rparr>))
       = Inr (infoOf [''hostname'' \<mapsto> ''My Server'', ''mapname'' \<mapsto> ''mp_nuketown''])"
    by (simp only: decodeKV_infoLine)
qed

text \<open>
  C6. The integer and boolean fields are not read from the map: \<^verbatim>\<open>atoi\<close> and
  \<^verbatim>\<open>boolSafe\<close> get the key itself, so that \<^verbatim>\<open>MaxClients\<close> is 0 and \<^verbatim>\<open>Voice\<close> is false
  whatever the map binds; with \<^verbatim>\<open>com_maxclients\<close> bound to 18 and \<^verbatim>\<open>voice\<close> to 1 the
  fields are still 0 and false.
\<close>

theorem typed_fields_ignore_map:
  "MaxClients (infoOf kv) = 0 \<and> \<not> Voice (infoOf kv)
   \<and> ComMaxClients (statusInfoOf kv) = 0 \<and> \<not> SvVoice (statusInfoOf kv)
   \<and> decodeKV maxClientsLine = [''com_maxclients'' \<mapsto> ''18'', ''voice'' \<mapsto> ''1'']
   \<and> atoi ''18'' = 18 \<and> boolSafe ''1''
   \<and> MaxClients (infoOf (decodeKV maxClientsLine)) = 0
   \<and> \<not> Voice (infoOf (decodeKV maxClientsLine))"
proof -
  have m: "atoi ''com_maxclients'' = 0" by code_simp
  have v: "\<not> boolSafe ''voice''" "\<not> boolSafe ''sv_voice''" by code_simp+
  have s: "Split maxClientsLine backslash = [[], ''com_maxclients'', ''18'', ''voice'', ''1'']"
    by code_simp
  have t: "TrimSpace ''com_maxclients'' = ''com_maxclients''" "TrimSpace ''18'' = ''18''"
    "TrimSpace ''voice'' = ''voice''" "TrimSpace ''1'' = ''1''"
    by code_simp+
  have c: "specStrip ''18'' = ''18''" "specStrip ''1'' = ''1''"
    by code_simp+
  have d: "decodeKV maxClientsLine = [''com_maxclients'' \<mapsto> ''18'', ''voice'' \<mapsto> ''1'']"
    by (simp add: decodeKV_spec specDecode_def s specStore_pair t c)
  have a: "atoi ''18'' = 18" by code_simp
  have b: "boolSafe ''1''" by code_simp
  show ?thesis
    using m v d a b by (simp add: infoOf_def statusInfoOf_def)
qed

subsection \<open>The dvar query\<close>

lemma firstClean_append:
  "firstClean (a @ b) = (if firstClean a = [] then firstClean b else firstClean a)"
  by (induction a) auto

lemma needRetry_spec: "needRetry ls = specPolluted ls"
  by (induction ls) (auto simp: specPolluted_def pollution_def)

lemma scanLines_noMatch:
  "noMatch tab dvar ls \<Longrightarrow>
   scanLines (rx1 tab (TrimSpace dvar)) (rx2 tab (TrimSpace dvar)) ls lc
     = NotFound (if lc = [] then firstClean ls else lc)"
proof (induction ls arbitrary: lc)
  case Nil
  then show ?case by simp
next
  case (Cons line ls)
  from Cons.prems have rest: "noMatch tab dvar ls"
    and this_line: "cleanOf line = []
       \<or> (FindStringSubmatch (rx1 tab (TrimSpace dvar)) (cleanOf line) = None
          \<and> FindStringSubmatch (rx2 tab (TrimSpace dvar)) (cleanOf line) = None)"
    by (simp_all add: noMatch_def)
  have c: "TrimSpace (stripColorCodes line) = cleanOf line"
    by (simp add: cleanOf_def stripColorCodes_spec)
  show ?case
    using this_line Cons.IH [OF rest]
    by (auto simp: Let_def c pollution_def)
qed

lemma dvarResult_spec: "dvarResult dvar (firstClean ls) = specAnswer dvar ls"
  by (simp add: dvarResult_def specAnswer_def)

text \<open>The patterns at work: the name is matched whatever its case, for the letters of
  ASCII and, with the table of two letters, for a name outside ASCII; without the table
  entry the line is not recognised and comes back as the fallback. The name U+FFFD
  matches a byte of the line that begins no rune. A name that is not valid UTF-8 makes
  the compilation of the patterns panic, before anything is sent.\<close>

lemma GetDvar_examples:
  "fst (GetDvar asciiFold rc0 ''sv_maxclients''
          (quiet\<lparr>reads := [Datagram (sentinel @ ''print\<newline>SV_MaxClients is: \"18^7\" default: \"18^7\"'')]\<rparr>))
     = Returns (Inr ''18'')"
  "fst (GetDvar asciiFold rc0 ''sv_maxclients''
          (quiet\<lparr>reads := [Datagram (sentinel @ ''print\<newline>sv_maxclients = 18'')]\<rparr>))
     = Returns (Inr ''18'')"
  "fst (GetDvar (\<lambda>r. if r = 233 then [201] else if r = 201 then [233] else []) rc0
          [CHR 0xC3, CHR 0xA9]
          (quiet\<lparr>reads := [Datagram (sentinel @ ''print\<newline>'' @ [CHR 0xC3, CHR 0x89] @ '' is: 7'')]\<rparr>))
     = Returns (Inr ''7'')"
  "fst (GetDvar (\<lambda>r. []) rc0 [CHR 0xC3, CHR 0xA9]
          (quiet\<lparr>reads := [Datagram (sentinel @ ''print\<newline>'' @ [CHR 0xC3, CHR 0x89] @ '' is: 7'')]\<rparr>))
     = Returns (Inr ([CHR 0xC3, CHR 0x89] @ '' is: 7''))"
  "fst (GetDvar asciiFold rc0 [CHR 0xEF, CHR 0xBF, CHR 0xBD]
          (quiet\<lparr>reads := [Datagram (sentinel @ ''print\<newline>'' @ [CHR 0xFF] @ '' is: 7'')]\<rparr>))
     = Returns (Inr ''7'')"
  "GetDvar tab rc [CHR 0xFF] w = (Panics BadPattern, w)"
proof -
  have "\<not> validUTF8 (TrimSpace [CHR 0xFF])" by code_simp
  then show "GetDvar tab rc [CHR 0xFF] w = (Panics BadPattern, w)"
    by (simp add: GetDvar_def)
qed code_simp+

text \<open>
  C7. A query for a name that has patterns (it is not empty, and valid UTF-8 once
  trimmed; for another name no query is sent) whose responses come without an error and
  have no line that either pattern matches. \<^verbatim>\<open>GetDvar\<close> makes a second attempt only when
  the first response contains the pollution token, after a sleep of 150 ms, and a third
  only when the second does too, after a sleep of 300 ms; after the third attempt it
  stops. It returns the first line of the responses it has read that is not empty and
  free of the token, colour codes stripped and trimmed, or \<open>ErrEmptyDvar\<close> when there is
  no such line. \<open>tab\<close> is the case folding table of the patterns, any table.
\<close>

theorem GetDvar_no_match:
  assumes "dvar \<noteq> []" and "validUTF8 (TrimSpace dvar)"
    and r0: "SendCommand rc dvar None [requireResponse] w = ((l0, None), w0)"
    and m0: "noMatch tab dvar l0"
    and r1: "specPolluted l0 \<Longrightarrow>
         SendCommand rc dvar None [requireResponse] (sleep (1 * 150 * Millisecond) w0)
           = ((l1, None), w1) \<and> noMatch tab dvar l1"
    and r2: "specPolluted l0 \<Longrightarrow> specPolluted l1 \<Longrightarrow>
         SendCommand rc dvar None [requireResponse] (sleep (2 * 150 * Millisecond) w1)
           = ((l2, None), w2) \<and> noMatch tab dvar l2"
  shows "GetDvar tab rc dvar w =
     (if \<not> specPolluted l0 then (Returns (specAnswer dvar l0), w0)
      else if \<not> specPolluted l1 then (Returns (specAnswer dvar (l0 @ l1)), w1)
      else (Returns (specAnswer dvar (l0 @ l1 @ l2)),
            if specPolluted l2 then sleep (3 * 150 * Millisecond) w2 else w2))"
proof -
  let ?r1 = "rx1 tab (TrimSpace dvar)" and ?r2 = "rx2 tab (TrimSpace dvar)"
  have s0: "scanLines ?r1 ?r2 l0 [] = NotFound (firstClean l0)"
    using scanLines_noMatch [OF m0, of "[]"] by simp
  show ?thesis
  proof (cases "specPolluted l0")
    case False
    then show ?thesis
      using assms(1,2) r0 s0
      by (simp add: GetDvar_def dvarLoop.simps [of _ _ _ _ 0] maxAttempts_def dvarResult_spec
          needRetry_spec)
  next
    case n0: True
    from r1 [OF n0] have r1': "SendCommand rc dvar None [requireResponse]
          (sleep (1 * 150 * Millisecond) w0) = ((l1, None), w1)" and m1: "noMatch tab dvar l1"
      by simp_all
    have s1: "scanLines ?r1 ?r2 l1 (firstClean l0) = NotFound (firstClean (l0 @ l1))"
      using scanLines_noMatch [OF m1, of "firstClean l0"] by (simp add: firstClean_append)
    show ?thesis
    proof (cases "specPolluted l1")
      case False
      then show ?thesis
        using assms(1,2) r0 s0 n0 r1' s1
        by (simp add: GetDvar_def dvarLoop.simps [of _ _ _ _ 0] dvarLoop.simps [of _ _ _ _ "Suc 0"]
            maxAttempts_def dvarResult_spec needRetry_spec)
    next
      case n1: True
      from r2 [OF n0 n1] have r2': "SendCommand rc dvar None [requireResponse]
          (sleep (2 * 150 * Millisecond) w1) = ((l2, None), w2)" and m2: "noMatch tab dvar l2"
        by simp_all
      have s2: "scanLines ?r1 ?r2 l2 (firstClean (l0 @ l1)) = NotFound (firstClean (l0 @ l1 @ l2))"
        using scanLines_noMatch [OF m2, of "firstClean (l0 @ l1)"]
        by (simp add: firstClean_append)
      have d3: "dvarLoop rc dvar ?r1 ?r2 (Suc (Suc (Suc 0))) lc w' = (dvarResult dvar lc, w')" for lc w'
        by (subst dvarLoop.simps) (simp add: maxAttempts_def)
      show ?thesis
        using assms(1,2) r0 s0 n0 r1' s1 n1 r2' s2
        by (simp add: GetDvar_def dvarLoop.simps [of _ _ _ _ 0] dvarLoop.simps [of _ _ _ _ "Suc 0"]
            dvarLoop.simps [of _ _ _ _ "Suc (Suc 0)"] d3
            maxAttempts_def dvarResult_spec needRetry_spec)
    qed
  qed
qed

theorem GetDvar_no_match_witness:
  "''sv_maxclients'' \<noteq> [] \<and> validUTF8 (TrimSpace ''sv_maxclients'')
   \<and> noMatch asciiFold ''sv_maxclients'' [''sv_iw4madmin_in something'', ''g_gametype: tdm'']
   \<and> specPolluted [''sv_iw4madmin_in something'', ''g_gametype: tdm'']
   \<and> noMatch asciiFold ''sv_maxclients'' [''sv_iw4madmin_in something'', ''unrelated'']
   \<and> specPolluted [''sv_iw4madmin_in something'', ''unrelated'']
   \<and> GetDvar asciiFold rc0 ''sv_maxclients'' pollutedWorld
       = (Returns (Inr ''g_gametype: tdm''), sleep (3 * 150 * Millisecond) afterThird)
   \<and> noMatch asciiFold ''sv_maxclients'' [''^1Unknown command ^7sv_maxclient'']
   \<and> \<not> specPolluted [''^1Unknown command ^7sv_maxclient'']
   \<and> GetDvar asciiFold rc0 ''sv_maxclients'' unknownWorld
       = (Returns (Inr ''Unknown command sv_maxclient''), afterUnknown)
   \<and> filter isWrote (trace afterUnknown) = [Wrote (packetOf (payloadOf rc0 ''sv_maxclients'' None))]
   \<and> filter isSlept (trace afterUnknown) = []
   \<and> fst (GetDvar asciiFold rc0 ''sv_maxclients'' onlyPollutedWorld)
       = Returns (Inl (ErrEmptyDvar ''sv_maxclients''))"
proof -
  let ?d = "''sv_maxclients''"
  let ?l0 = "[''sv_iw4madmin_in something'', ''g_gametype: tdm'']"
  let ?l1 = "[''sv_iw4madmin_in something'', ''unrelated'']"
  let ?lu = "[''^1Unknown command ^7sv_maxclient'']"
  let ?send = "SendCommand rc0 ?d None [requireResponse]"
  have a: "?d \<noteq> []" by simp
  have v: "validUTF8 (TrimSpace ?d)" by code_simp
  have r0: "?send pollutedWorld = ((?l0, None), afterFirst)" by code_simp
  have m0: "noMatch asciiFold ?d ?l0" by code_simp
  have m1: "noMatch asciiFold ?d ?l1" by code_simp
  have n0: "specPolluted ?l0" by code_simp
  have n1: "specPolluted ?l1" by code_simp
  have r1: "?send (sleep (1 * 150 * Millisecond) afterFirst) = ((?l1, None), afterSecond)"
    by code_simp
  have r2: "?send (sleep (2 * 150 * Millisecond) afterSecond) = ((?l1, None), afterThird)"
    by code_simp
  have s: "specAnswer ?d (?l0 @ ?l1 @ ?l1) = Inr ''g_gametype: tdm''" by code_simp
  have g: "GetDvar asciiFold rc0 ?d pollutedWorld =
      (Returns (Inr ''g_gametype: tdm''), sleep (3 * 150 * Millisecond) afterThird)"
    using GetDvar_no_match [OF a v r0 m0 conjI [OF r1 m1] conjI [OF r2 m1]]
    by (simp only: n0 n1 s not_True_eq_False if_False if_True)
  have ru: "?send unknownWorld = ((?lu, None), afterUnknown)" by code_simp
  have mu: "noMatch asciiFold ?d ?lu" by code_simp
  have nu: "\<not> specPolluted ?lu" by code_simp
  have su: "specAnswer ?d ?lu = Inr ''Unknown command sv_maxclient''" by code_simp
  have gu: "GetDvar asciiFold rc0 ?d unknownWorld
       = (Returns (Inr ''Unknown command sv_maxclient''), afterUnknown)"
    using GetDvar_no_match [OF a v ru mu, of ?l1 afterUnknown ?l1 afterUnknown] nu
    by (simp only: su not_False_eq_True if_True)
  have tw: "filter isWrote (trace afterUnknown) = [Wrote (packetOf (payloadOf rc0 ?d None))]"
    by (simp add: afterUnknown_def dvarCycle_def)
  have ts: "filter isSlept (trace afterUnknown) = []"
    by (simp add: afterUnknown_def dvarCycle_def)
  have e: "fst (GetDvar asciiFold rc0 ?d onlyPollutedWorld) = Returns (Inl (ErrEmptyDvar ?d))"
    by code_simp
  from a v m0 n0 m1 n1 g mu nu gu tw ts e show ?thesis by (intro conjI)
qed

subsection \<open>A closed client\<close>














subsection \<open>Construction\<close>

lemma HasPrefix_single: "HasPrefix s [c] = (\<exists>t. s = c # t)"
  by (cases s) auto

lemma Atoi_accepts:
  "(snd (Atoi s) = None) =
     (\<exists>ds. ds \<noteq> [] \<and> list_all isDigit ds
            \<and> ((s = ds \<or> s = CHR ''+'' # ds) \<and> decimal ds < 2 ^ 63
               \<or> s = CHR ''-'' # ds \<and> decimal ds \<le> 2 ^ 63))"
proof (cases s)
  case Nil
  then show ?thesis by (simp add: Atoi_def)
next
  case (Cons c t)
  have nd: "\<not> isDigit (CHR ''-'')" "\<not> isDigit (CHR ''+'')"
    by (simp_all add: isDigit_def digits_def)
  consider "c = CHR ''-''" | "c = CHR ''+''" | "c \<noteq> CHR ''-''" "c \<noteq> CHR ''+''" by blast
  then show ?thesis
  proof cases
    case 1
    then show ?thesis using Cons nd by (auto simp: Atoi_def Let_def)
  next
    case 2
    then show ?thesis using Cons nd by (auto simp: Atoi_def Let_def)
  next
    case 3
    then show ?thesis using Cons nd by (auto simp: Atoi_def Let_def)
  qed
qed

lemma Atoi_negative:
  "ds \<noteq> [] \<Longrightarrow> list_all isDigit ds \<Longrightarrow> decimal ds \<le> 2 ^ 63 \<Longrightarrow>
   Atoi (CHR ''-'' # ds) = (- decimal ds, None)"
  by (simp add: Atoi_def Let_def)

text \<open>
  C9, as stated, fails: the port \<^verbatim>\<open>-1\<close> parses, so \<^verbatim>\<open>New\<close> does not return the
  invalid-port error for it; the address is then refused by the resolver. And with an
  empty password the error is the empty-password error whatever the port is.
\<close>

theorem New_negative_port_counterexample:
  "Atoi ''-1'' = (-1, None)
   \<and> New localNet ''127.0.0.1'' ''-1'' ''secret'' = Inl ErrResolve
   \<and> New localNet ''127.0.0.1'' ''-1'' ''secret'' \<noteq> Inl ErrInvalidPort
   \<and> New localNet ''127.0.0.1'' ''x'' [] = Inl ErrEmptyPassword
   \<and> New localNet ''127.0.0.1'' ''x'' [] \<noteq> Inl ErrInvalidPort"
  by code_simp

text \<open>
  C9, amended. The empty password gives \<open>ErrEmptyPassword\<close>. Otherwise \<open>ErrInvalidPort\<close>
  is returned exactly for the ports that \<^verbatim>\<open>strconv.Atoi\<close> rejects, those that are not
  decimal digits with an optional sign in the range of \<^verbatim>\<open>int\<close>; a negative number
  passes this check. When the address then resolves and the socket is dialled, the
  result is a client with a socket and the read timeout of one second; every client
  that \<^verbatim>\<open>New\<close> returns has both.
\<close>

theorem New_checks:
  "(password = [] \<longrightarrow> New net ip port password = Inl ErrEmptyPassword)
   \<and> (password \<noteq> [] \<longrightarrow>
        (New net ip port password = Inl ErrInvalidPort) = (snd (Atoi port) \<noteq> None))
   \<and> (snd (Atoi port) = None) =
        (\<exists>ds. ds \<noteq> [] \<and> list_all isDigit ds
            \<and> ((port = ds \<or> port = CHR ''+'' # ds) \<and> decimal ds < 2 ^ 63
               \<or> port = CHR ''-'' # ds \<and> decimal ds \<le> 2 ^ 63))
   \<and> (password \<noteq> [] \<and> ds \<noteq> [] \<and> list_all isDigit ds \<and> decimal ds \<le> 2 ^ 63 \<longrightarrow>
        New net ip (CHR ''-'' # ds) password \<noteq> Inl ErrInvalidPort)
   \<and> (password \<noteq> [] \<and> snd (Atoi port) = None
        \<and> resolves net (ip @ '':'' @ intStr (fst (Atoi port)))
        \<and> dials net (ip @ '':'' @ intStr (fst (Atoi port))) \<longrightarrow>
        New net ip port password =
          Inr \<lparr>IP = ip, Port = fst (Atoi port), Password = password, Timeout = Second,
               Conn = Some (UDPConn (ip @ '':'' @ intStr (fst (Atoi port))))\<rparr>)
   \<and> (New net ip port password = Inr rc \<longrightarrow>
        Timeout rc = Second \<and> Conn rc \<noteq> None \<and> password \<noteq> [] \<and> snd (Atoi port) = None)"
proof (intro conjI impI)
  show "New net ip port password = Inl ErrEmptyPassword" if "password = []"
    using that by (simp add: New_def)
  show "(New net ip port password = Inl ErrInvalidPort) = (snd (Atoi port) \<noteq> None)"
    if "password \<noteq> []"
    using that by (auto simp: New_def Let_def split: prod.splits option.splits)
  show "(snd (Atoi port) = None) =
        (\<exists>ds. ds \<noteq> [] \<and> list_all isDigit ds
            \<and> ((port = ds \<or> port = CHR ''+'' # ds) \<and> decimal ds < 2 ^ 63
               \<or> port = CHR ''-'' # ds \<and> decimal ds \<le> 2 ^ 63))"
    by (rule Atoi_accepts)
  show "New net ip (CHR ''-'' # ds) password \<noteq> Inl ErrInvalidPort"
    if "password \<noteq> [] \<and> ds \<noteq> [] \<and> list_all isDigit ds \<and> decimal ds \<le> 2 ^ 63"
    using that by (simp add: New_def Atoi_negative Let_def)
  show "New net ip port password =
          Inr \<lparr>IP = ip, Port = fst (Atoi port), Password = password, Timeout = Second,
               Conn = Some (UDPConn (ip @ '':'' @ intStr (fst (Atoi port))))\<rparr>"
    if "password \<noteq> [] \<and> snd (Atoi port) = None
        \<and> resolves net (ip @ '':'' @ intStr (fst (Atoi port)))
        \<and> dials net (ip @ '':'' @ intStr (fst (Atoi port)))"
    using that by (auto simp: New_def Let_def defaultReadTimeout_def split: prod.splits)
  show "Timeout rc = Second" "Conn rc \<noteq> None" "password \<noteq> []" "snd (Atoi port) = None"
    if "New net ip port password = Inr rc"
    using that
    by (auto simp: New_def Let_def defaultReadTimeout_def split: prod.splits option.splits if_splits)
qed

theorem New_checks_witness:
  "''secret'' \<noteq> [] \<and> ''1'' \<noteq> [] \<and> list_all isDigit ''1'' \<and> decimal ''1'' \<le> 2 ^ 63
   \<and> New localNet ''127.0.0.1'' ''-1'' ''secret'' \<noteq> Inl ErrInvalidPort
   \<and> New localNet ''127.0.0.1'' ''28960'' [] = Inl ErrEmptyPassword
   \<and> snd (Atoi ''port'') \<noteq> None
   \<and> New localNet ''127.0.0.1'' ''port'' ''secret'' = Inl ErrInvalidPort
   \<and> snd (Atoi ''28960'') = None
   \<and> resolves localNet (''127.0.0.1'' @ '':'' @ intStr (fst (Atoi ''28960'')))
   \<and> dials localNet (''127.0.0.1'' @ '':'' @ intStr (fst (Atoi ''28960'')))
   \<and> New localNet ''127.0.0.1'' ''28960'' ''secret'' = Inr rc0
   \<and> Timeout rc0 = Second"
proof -
  have p: "''secret'' \<noteq> []" by simp
  have d: "''1'' \<noteq> [] \<and> list_all isDigit ''1'' \<and> decimal ''1'' \<le> 2 ^ 63" by code_simp
  have a1: "snd (Atoi ''port'') \<noteq> None" by code_simp
  have a2: "snd (Atoi ''28960'') = None" by code_simp
  have r: "resolves localNet (''127.0.0.1'' @ '':'' @ intStr (fst (Atoi ''28960'')))" by code_simp
  have l: "dials localNet (''127.0.0.1'' @ '':'' @ intStr (fst (Atoi ''28960'')))" by code_simp
  have v: "\<lparr>IP = ''127.0.0.1'', Port = fst (Atoi ''28960''), Password = ''secret'', Timeout = Second,
               Conn = Some (UDPConn (''127.0.0.1'' @ '':'' @ intStr (fst (Atoi ''28960''))))\<rparr> = rc0"
    by code_simp
  note t = New_checks [of "[]" localNet "''127.0.0.1''" "''28960''"]
    New_checks [of "''secret''" localNet "''127.0.0.1''" "''port''" "''1''"]
    New_checks [of "''secret''" localNet "''127.0.0.1''" "''28960''" "''1''" rc0]
  have e: "New localNet ''127.0.0.1'' ''28960'' [] = Inl ErrEmptyPassword"
    using t(1) by blast
  have i: "New localNet ''127.0.0.1'' ''port'' ''secret'' = Inl ErrInvalidPort"
    using t(2) p a1 by blast
  have n: "New localNet ''127.0.0.1'' ''-1'' ''secret'' \<noteq> Inl ErrInvalidPort"
    using t(2) p d by blast
  have c: "New localNet ''127.0.0.1'' ''28960'' ''secret'' = Inr rc0"
    using t(3) p a2 r l unfolding v by blast
  have s: "Timeout rc0 = Second" using t(3) c by blast
  from p d n e a1 i a2 r l c s show ?thesis by blast
qed

subsection \<open>The two query operations\<close>

lemma readLoop_trace:
  "readLoop e buf d w = (r, w') \<Longrightarrow> \<exists>ds. trace w' = trace w @ map Deadline ds"
proof (induction e buf d w arbitrary: r w' rule: readLoop.induct)
  case (1 readExt buf d w)
  show ?case
  proof (cases "closed w")
    case True
    with "1.prems" have "w' = w"
      by (subst (asm) readLoop.simps) (simp add: connSetReadDeadline_def)
    then show ?thesis by (intro exI [of _ "[]"]) simp
  next
    case False
    let ?w1 = "w\<lparr>trace := trace w @ [Deadline d]\<rparr>"
    have sd: "connSetReadDeadline d w = (None, ?w1)"
      using False by (simp add: connSetReadDeadline_def)
    obtain x w2 where cr: "connRead ?w1 = (x, w2)" by (cases "connRead ?w1")
    have t2: "trace w2 = trace w @ [Deadline d]"
      using cr False by (auto simp: connRead_def split: list.splits recv.splits)
    show ?thesis
    proof (cases x)
      case (Inl err)
      with "1.prems" sd cr have "w' = w2"
        by (subst (asm) readLoop.simps) (auto split: if_splits)
      with t2 show ?thesis by (intro exI [of _ "[d]"]) simp
    next
      case (Inr tmp)
      show ?thesis
      proof (cases "length tmp > 0")
        case True
        with "1.prems" sd cr Inr
        have "readLoop readExt (buf @ tmp) (if readExt > 0 then readExt else d) w2 = (r, w')"
          by (subst (asm) readLoop.simps) simp
        from "1.IH"(1) [OF sd [symmetric] refl cr [symmetric] Inr True this]
        obtain ds where "trace w' = trace w2 @ map Deadline ds" by blast
        with t2 show ?thesis by (intro exI [of _ "d # ds"]) simp
      next
        case False
        with "1.prems" sd cr Inr
        have "readLoop readExt buf d w2 = (r, w')"
          by (subst (asm) readLoop.simps) simp
        from "1.IH"(2) [OF sd [symmetric] refl cr [symmetric] Inr False this]
        obtain ds where "trace w' = trace w2 @ map Deadline ds" by blast
        with t2 show ?thesis by (intro exI [of _ "d # ds"]) simp
      qed
    qed
  qed
qed

lemma readResponse_trace:
  "\<exists>ds. trace (snd (readResponse t e w)) = trace w @ map Deadline ds"
proof -
  let ?t = "if t \<le> 0 then defaultReadTimeout else t" and ?e = "if e < 0 then 0 else e"
  obtain r w' where rl: "readLoop ?e [] ?t w = (r, w')" by (cases "readLoop ?e [] ?t w")
  from readLoop_trace [OF rl] obtain ds where "trace w' = trace w @ map Deadline ds" by blast
  moreover have "snd (readResponse t e w) = w'"
    using rl by (cases r) (simp_all add: readResponse_def Let_def)
  ultimately show ?thesis by auto
qed

lemma connWrite_trace: "trace (snd (connWrite p w)) = trace w @ [Wrote p]"
  by (simp add: connWrite_def Let_def split: list.splits)

lemma readLoop_timeout:
  "\<not> closed w \<Longrightarrow> reads w = [] \<or> hd (reads w) = Failure ErrTimeout \<Longrightarrow>
   fst (readLoop e buf d w) = (if buf = [] then Inl ErrTimeout else Inr buf)"
  by (subst readLoop.simps)
     (auto simp: connSetReadDeadline_def connRead_def isTimeout_def split: list.splits recv.splits)

lemma readResponse_timeout:
  assumes "\<not> closed w" and "reads w = [] \<or> hd (reads w) = Failure ErrTimeout"
  shows "fst (readResponse t e w) = ([], Some ErrTimeout)"
proof -
  let ?t = "if t \<le> 0 then defaultReadTimeout else t" and ?e = "if e < 0 then 0 else e"
  obtain r w' where rl: "readLoop ?e [] ?t w = (r, w')" by (cases "readLoop ?e [] ?t w")
  from readLoop_timeout [OF assms, of ?e "[]" ?t] rl have "r = Inl ErrTimeout" by simp
  with rl show ?thesis by (simp add: readResponse_def Let_def)
qed

lemma GetInfo_exchange:
  assumes "Conn rc \<noteq> None"
  shows "\<exists>ds. trace (snd (GetInfo rc w)) = trace w @ Wrote infoPacket # map Deadline ds"
    and "fst (connWrite infoPacket w) = Some err \<Longrightarrow>
          GetInfo rc w = (Inl err, snd (connWrite infoPacket w))"
    and "fst (connWrite infoPacket w) = None \<Longrightarrow>
          snd (GetInfo rc w)
            = snd (readResponse (timeoutOrDefault rc) defaultReadExtension (snd (connWrite infoPacket w)))"
    and "fst (connWrite infoPacket w) = None \<Longrightarrow>
          snd (fst (readResponse (timeoutOrDefault rc) defaultReadExtension
                      (snd (connWrite infoPacket w)))) = Some err \<Longrightarrow>
          fst (GetInfo rc w) = Inl err"
    and "fst (connWrite infoPacket w) = None \<Longrightarrow>
          fst (readResponse (timeoutOrDefault rc) defaultReadExtension
                      (snd (connWrite infoPacket w))) = ([], None) \<Longrightarrow>
          fst (GetInfo rc w) = Inl ErrEmptyInfo"
    and "fst (GetInfo rc w) = Inr info \<Longrightarrow>
          fst (fst (readResponse (timeoutOrDefault rc) defaultReadExtension
                      (snd (connWrite infoPacket w)))) \<noteq> []"
proof -
  let ?rr = "readResponse (timeoutOrDefault rc) defaultReadExtension (snd (connWrite infoPacket w))"
  obtain x w1 where cw: "connWrite infoPacket w = (x, w1)" by (cases "connWrite infoPacket w")
  obtain ls er w2 where rr: "readResponse (timeoutOrDefault rc) defaultReadExtension w1 = ((ls, er), w2)"
    by (cases "readResponse (timeoutOrDefault rc) defaultReadExtension w1") auto
  have t1: "trace w1 = trace w @ [Wrote infoPacket]"
    using connWrite_trace [of infoPacket w] cw by simp
  from readResponse_trace [of "timeoutOrDefault rc" defaultReadExtension w1] rr
  obtain ds where t2: "trace w2 = trace w1 @ map Deadline ds" by auto
  have sw: "snd (GetInfo rc w) = (if x = None then w2 else w1)"
    using assms cw rr by (auto simp: GetInfo_def infoPacket_def split: option.splits)
  show "\<exists>ds. trace (snd (GetInfo rc w)) = trace w @ Wrote infoPacket # map Deadline ds"
  proof (cases x)
    case None
    with sw t1 t2 show ?thesis by (intro exI [of _ ds]) simp
  next
    case (Some a)
    with sw t1 show ?thesis by (intro exI [of _ "[]"]) simp
  qed
  show "GetInfo rc w = (Inl err, snd (connWrite infoPacket w))"
    if "fst (connWrite infoPacket w) = Some err"
    using that assms cw by (auto simp: GetInfo_def infoPacket_def)
  show "snd (GetInfo rc w) = snd ?rr" if "fst (connWrite infoPacket w) = None"
    using that sw cw rr by simp
  show "fst (GetInfo rc w) = Inl err"
    if "fst (connWrite infoPacket w) = None" "snd (fst ?rr) = Some err"
    using that assms cw rr by (auto simp: GetInfo_def infoPacket_def)
  show "fst (GetInfo rc w) = Inl ErrEmptyInfo"
    if "fst (connWrite infoPacket w) = None" "fst ?rr = ([], None)"
    using that assms cw rr by (auto simp: GetInfo_def infoPacket_def)
  show "fst (fst ?rr) \<noteq> []" if "fst (GetInfo rc w) = Inr info"
    using that assms cw rr
    by (auto simp: GetInfo_def infoPacket_def split: option.splits if_splits)
qed

lemma GetStatus_exchange:
  assumes "Conn rc \<noteq> None"
  shows "\<exists>ds. trace (snd (GetStatus rc w)) = trace w @ Wrote statusPacket # map Deadline ds"
    and "fst (connWrite statusPacket w) = Some err \<Longrightarrow>
          GetStatus rc w = (Inl err, snd (connWrite statusPacket w))"
    and "fst (connWrite statusPacket w) = None \<Longrightarrow>
          snd (GetStatus rc w)
            = snd (readResponse (timeoutOrDefault rc) defaultReadExtension (snd (connWrite statusPacket w)))"
    and "fst (connWrite statusPacket w) = None \<Longrightarrow>
          snd (fst (readResponse (timeoutOrDefault rc) defaultReadExtension
                      (snd (connWrite statusPacket w)))) = Some err \<Longrightarrow>
          fst (GetStatus rc w) = Inl err"
    and "fst (connWrite statusPacket w) = None \<Longrightarrow>
          fst (readResponse (timeoutOrDefault rc) defaultReadExtension
                      (snd (connWrite statusPacket w))) = ([], None) \<Longrightarrow>
          fst (GetStatus rc w) = Inl ErrEmptyStatus"
    and "fst (GetStatus rc w) = Inr info \<Longrightarrow>
          fst (fst (readResponse (timeoutOrDefault rc) defaultReadExtension
                      (snd (connWrite statusPacket w)))) \<noteq> []"
proof -
  let ?rr = "readResponse (timeoutOrDefault rc) defaultReadExtension (snd (connWrite statusPacket w))"
  obtain x w1 where cw: "connWrite statusPacket w = (x, w1)" by (cases "connWrite statusPacket w")
  obtain ls er w2 where rr: "readResponse (timeoutOrDefault rc) defaultReadExtension w1 = ((ls, er), w2)"
    by (cases "readResponse (timeoutOrDefault rc) defaultReadExtension w1") auto
  have t1: "trace w1 = trace w @ [Wrote statusPacket]"
    using connWrite_trace [of statusPacket w] cw by simp
  from readResponse_trace [of "timeoutOrDefault rc" defaultReadExtension w1] rr
  obtain ds where t2: "trace w2 = trace w1 @ map Deadline ds" by auto
  have sw: "snd (GetStatus rc w) = (if x = None then w2 else w1)"
    using assms cw rr by (auto simp: GetStatus_def statusPacket_def split: option.splits)
  show "\<exists>ds. trace (snd (GetStatus rc w)) = trace w @ Wrote statusPacket # map Deadline ds"
  proof (cases x)
    case None
    with sw t1 t2 show ?thesis by (intro exI [of _ ds]) simp
  next
    case (Some a)
    with sw t1 show ?thesis by (intro exI [of _ "[]"]) simp
  qed
  show "GetStatus rc w = (Inl err, snd (connWrite statusPacket w))"
    if "fst (connWrite statusPacket w) = Some err"
    using that assms cw by (auto simp: GetStatus_def statusPacket_def)
  show "snd (GetStatus rc w) = snd ?rr" if "fst (connWrite statusPacket w) = None"
    using that sw cw rr by simp
  show "fst (GetStatus rc w) = Inl err"
    if "fst (connWrite statusPacket w) = None" "snd (fst ?rr) = Some err"
    using that assms cw rr by (auto simp: GetStatus_def statusPacket_def)
  show "fst (GetStatus rc w) = Inl ErrEmptyStatus"
    if "fst (connWrite statusPacket w) = None" "fst ?rr = ([], None)"
    using that assms cw rr by (auto simp: GetStatus_def statusPacket_def)
  show "fst (fst ?rr) \<noteq> []" if "fst (GetStatus rc w) = Inr info"
    using that assms cw rr
    by (auto simp: GetStatus_def statusPacket_def split: option.splits if_splits)
qed

lemma connWrite_ok:
  "\<not> closed w \<Longrightarrow> writes w = [] \<or> hd (writes w) = None \<Longrightarrow>
   fst (connWrite p w) = None \<and> \<not> closed (snd (connWrite p w))
   \<and> reads (snd (connWrite p w)) = reads w"
  by (auto simp: connWrite_def Let_def split: list.splits)

lemma readLoop_refused:
  "\<not> closed w \<Longrightarrow> reads w = map Datagram dgs @ Failure e # rest \<Longrightarrow> e \<noteq> ErrTimeout \<Longrightarrow>
   fst (readLoop ext buf d w) = Inl e"
proof (induction dgs arbitrary: buf d w)
  case Nil
  then show ?case
    by (subst readLoop.simps)
       (simp add: connSetReadDeadline_def connRead_def isTimeout_def)
next
  case (Cons dg dgs)
  let ?w2 = "w\<lparr>trace := trace w @ [Deadline d], reads := map Datagram dgs @ Failure e # rest\<rparr>"
  have c: "\<not> closed ?w2" and r: "reads ?w2 = map Datagram dgs @ Failure e # rest"
    using Cons.prems(1) by simp_all
  note IH = Cons.IH [OF c r Cons.prems(3)]
  show ?case
    using Cons.prems IH
    by (subst readLoop.simps) (simp add: connSetReadDeadline_def connRead_def)
qed

lemma readResponse_refused:
  assumes "\<not> closed w" and "reads w = map Datagram dgs @ Failure e # rest" and "e \<noteq> ErrTimeout"
  shows "snd (fst (readResponse t ext w)) = Some e"
proof -
  let ?t = "if t \<le> 0 then defaultReadTimeout else t" and ?e = "if ext < 0 then 0 else ext"
  obtain r w' where rl: "readLoop ?e [] ?t w = (r, w')" by (cases "readLoop ?e [] ?t w")
  from readLoop_refused [OF assms, of ?e "[]" ?t] rl have "r = Inl e" by simp
  with rl show ?thesis by (simp add: readResponse_def Let_def)
qed

text \<open>
  C10, as stated, fails: a timeout that finds data in the buffer is not an error. It
  ends the accumulation, and \<^verbatim>\<open>GetInfo\<close> goes on to decode the response.
\<close>

theorem query_timeout_counterexample:
  "reads repliedWorld = [Datagram (sentinel @ ''infoResponse\<newline>'' @ infoLine), Failure ErrTimeout]
   \<and> reads (snd (GetInfo rc0 repliedWorld)) = []
   \<and> fst (GetInfo rc0 repliedWorld)
       = Inr (infoOf [''hostname'' \<mapsto> ''My Server'', ''mapname'' \<mapsto> ''mp_nuketown''])
   \<and> fst (GetInfo rc0 repliedWorld) \<noteq> Inl ErrTimeout"
proof -
  have a: "reads repliedWorld
      = [Datagram (sentinel @ ''infoResponse\<newline>'' @ infoLine), Failure ErrTimeout]"
    by (simp add: repliedWorld_def quiet_def)
  have b: "reads (snd (GetInfo rc0 repliedWorld)) = []" by code_simp
  have "fst (GetInfo rc0 repliedWorld) = Inr (infoOf (decodeKV infoLine))" by code_simp
  then have c: "fst (GetInfo rc0 repliedWorld)
       = Inr (infoOf [''hostname'' \<mapsto> ''My Server'', ''mapname'' \<mapsto> ''mp_nuketown''])"
    by (simp only: decodeKV_infoLine)
  then have d: "fst (GetInfo rc0 repliedWorld) \<noteq> Inl ErrTimeout" by simp
  from a b c d show ?thesis by (intro conjI)
qed

text \<open>
  C10, amended. \<^verbatim>\<open>GetInfo\<close> and \<^verbatim>\<open>GetStatus\<close> write their datagram once, run one
  accumulation when the write went through, and never sleep. They return the error of
  the write, and the error of the accumulation: the timeout when nothing was
  accumulated, and a read error that is not a timeout whether or not datagrams came
  before it. A timeout after some data ends the accumulation without an error. A
  response without lines gives \<open>ErrEmptyInfo\<close> or \<open>ErrEmptyStatus\<close>, so a result is
  only returned for a response with lines.
\<close>

theorem query_single_exchange:
  assumes "Conn rc \<noteq> None"
  shows
   "(\<exists>ds. trace (snd (GetInfo rc w)) = trace w @ Wrote infoPacket # map Deadline ds)
    \<and> (fst (connWrite infoPacket w) = Some err \<longrightarrow>
          GetInfo rc w = (Inl err, snd (connWrite infoPacket w)))
    \<and> (fst (connWrite infoPacket w) = None \<longrightarrow>
          snd (GetInfo rc w)
            = snd (readResponse (timeoutOrDefault rc) defaultReadExtension
                     (snd (connWrite infoPacket w)))
          \<and> (snd (fst (readResponse (timeoutOrDefault rc) defaultReadExtension
                          (snd (connWrite infoPacket w)))) = Some err \<longrightarrow>
               fst (GetInfo rc w) = Inl err)
          \<and> (fst (readResponse (timeoutOrDefault rc) defaultReadExtension
                     (snd (connWrite infoPacket w))) = ([], None) \<longrightarrow>
               fst (GetInfo rc w) = Inl ErrEmptyInfo))
    \<and> (fst (GetInfo rc w) = Inr info \<longrightarrow>
          fst (fst (readResponse (timeoutOrDefault rc) defaultReadExtension
                      (snd (connWrite infoPacket w)))) \<noteq> [])
    \<and> (\<not> closed w \<and> (writes w = [] \<or> hd (writes w) = None)
         \<and> (reads w = [] \<or> hd (reads w) = Failure ErrTimeout) \<longrightarrow>
          fst (GetInfo rc w) = Inl ErrTimeout \<and> fst (GetStatus rc w) = Inl ErrTimeout)
    \<and> (\<not> closed w \<and> buf \<noteq> [] \<and> (reads w = [] \<or> hd (reads w) = Failure ErrTimeout) \<longrightarrow>
          fst (readLoop ext buf d w) = Inr buf)
    \<and> (\<not> closed w \<and> (writes w = [] \<or> hd (writes w) = None)
         \<and> reads w = map Datagram dgs @ Failure e # rest \<and> e \<noteq> ErrTimeout \<longrightarrow>
          fst (GetInfo rc w) = Inl e \<and> fst (GetStatus rc w) = Inl e)
    \<and> (\<exists>ds. trace (snd (GetStatus rc w)) = trace w @ Wrote statusPacket # map Deadline ds)
    \<and> (fst (connWrite statusPacket w) = Some err \<longrightarrow>
          GetStatus rc w = (Inl err, snd (connWrite statusPacket w)))
    \<and> (fst (connWrite statusPacket w) = None \<longrightarrow>
          snd (GetStatus rc w)
            = snd (readResponse (timeoutOrDefault rc) defaultReadExtension
                     (snd (connWrite statusPacket w)))
          \<and> (snd (fst (readResponse (timeoutOrDefault rc) defaultReadExtension
                          (snd (connWrite statusPacket w)))) = Some err \<longrightarrow>
               fst (GetStatus rc w) = Inl err)
          \<and> (fst (readResponse (timeoutOrDefault rc) defaultReadExtension
                     (snd (connWrite statusPacket w))) = ([], None) \<longrightarrow>
               fst (GetStatus rc w) = Inl ErrEmptyStatus))
    \<and> (fst (GetStatus rc w) = Inr sinfo \<longrightarrow>
          fst (fst (readResponse (timeoutOrDefault rc) defaultReadExtension
                      (snd (connWrite statusPacket w)))) \<noteq> [])"
proof -
  note i = GetInfo_exchange [OF assms] and s = GetStatus_exchange [OF assms]
  have t: "fst (GetInfo rc w) = Inl ErrTimeout \<and> fst (GetStatus rc w) = Inl ErrTimeout"
    if h: "\<not> closed w \<and> (writes w = [] \<or> hd (writes w) = None)
         \<and> (reads w = [] \<or> hd (reads w) = Failure ErrTimeout)"
  proof -
    have "fst (GetInfo rc w) = Inl ErrTimeout"
    proof (rule i(4))
      from h connWrite_ok [of w infoPacket]
      show wi: "fst (connWrite infoPacket w) = None" by blast
      from h connWrite_ok [of w infoPacket]
      have "\<not> closed (snd (connWrite infoPacket w))"
        and "reads (snd (connWrite infoPacket w)) = []
             \<or> hd (reads (snd (connWrite infoPacket w))) = Failure ErrTimeout"
        by auto
      from readResponse_timeout [OF this]
      show "snd (fst (readResponse (timeoutOrDefault rc) defaultReadExtension
                      (snd (connWrite infoPacket w)))) = Some ErrTimeout" by simp
    qed
    moreover have "fst (GetStatus rc w) = Inl ErrTimeout"
    proof (rule s(4))
      from h connWrite_ok [of w statusPacket]
      show wi: "fst (connWrite statusPacket w) = None" by blast
      from h connWrite_ok [of w statusPacket]
      have "\<not> closed (snd (connWrite statusPacket w))"
        and "reads (snd (connWrite statusPacket w)) = []
             \<or> hd (reads (snd (connWrite statusPacket w))) = Failure ErrTimeout"
        by auto
      from readResponse_timeout [OF this]
      show "snd (fst (readResponse (timeoutOrDefault rc) defaultReadExtension
                      (snd (connWrite statusPacket w)))) = Some ErrTimeout" by simp
    qed
    ultimately show ?thesis ..
  qed
  have f: "fst (GetInfo rc w) = Inl e \<and> fst (GetStatus rc w) = Inl e"
    if h: "\<not> closed w \<and> (writes w = [] \<or> hd (writes w) = None)
         \<and> reads w = map Datagram dgs @ Failure e # rest \<and> e \<noteq> ErrTimeout"
  proof -
    have "fst (GetInfo rc w) = Inl e"
    proof (rule i(4))
      from h connWrite_ok [of w infoPacket]
      show wi: "fst (connWrite infoPacket w) = None" by blast
      from h connWrite_ok [of w infoPacket]
      have "\<not> closed (snd (connWrite infoPacket w))"
        and "reads (snd (connWrite infoPacket w)) = map Datagram dgs @ Failure e # rest"
        and "e \<noteq> ErrTimeout"
        by auto
      from readResponse_refused [OF this]
      show "snd (fst (readResponse (timeoutOrDefault rc) defaultReadExtension
                      (snd (connWrite infoPacket w)))) = Some e" .
    qed
    moreover have "fst (GetStatus rc w) = Inl e"
    proof (rule s(4))
      from h connWrite_ok [of w statusPacket]
      show wi: "fst (connWrite statusPacket w) = None" by blast
      from h connWrite_ok [of w statusPacket]
      have "\<not> closed (snd (connWrite statusPacket w))"
        and "reads (snd (connWrite statusPacket w)) = map Datagram dgs @ Failure e # rest"
        and "e \<noteq> ErrTimeout"
        by auto
      from readResponse_refused [OF this]
      show "snd (fst (readResponse (timeoutOrDefault rc) defaultReadExtension
                      (snd (connWrite statusPacket w)))) = Some e" .
    qed
    ultimately show ?thesis ..
  qed
  have b: "fst (readLoop ext buf d w) = Inr buf"
    if "\<not> closed w \<and> buf \<noteq> [] \<and> (reads w = [] \<or> hd (reads w) = Failure ErrTimeout)"
    using that readLoop_timeout [of w ext buf d] by simp
  show ?thesis
  proof (intro conjI impI)
    show "\<exists>ds. trace (snd (GetInfo rc w)) = trace w @ Wrote infoPacket # map Deadline ds"
      by (rule i(1))
    show "\<exists>ds. trace (snd (GetStatus rc w)) = trace w @ Wrote statusPacket # map Deadline ds"
      by (rule s(1))
  qed (erule i(2) i(3) i(6) s(2) s(3) s(6) b t [THEN conjunct1] t [THEN conjunct2]
          f [THEN conjunct1] f [THEN conjunct2]
        | erule (1) i(4) i(5) s(4) s(5))+
qed

theorem query_single_exchange_witness:
  "Conn rc0 \<noteq> None
   \<and> \<not> closed quiet \<and> writes quiet = [] \<and> reads quiet = []
   \<and> fst (GetInfo rc0 quiet) = Inl ErrTimeout
   \<and> fst (GetStatus rc0 quiet) = Inl ErrTimeout
   \<and> fst (connWrite infoPacket unreachable) = Some (ErrIO ''network is unreachable'')
   \<and> GetInfo rc0 unreachable
       = (Inl (ErrIO ''network is unreachable''), snd (connWrite infoPacket unreachable))
   \<and> fst (connWrite statusPacket emptyReply) = None
   \<and> fst (readResponse (timeoutOrDefault rc0) defaultReadExtension
             (snd (connWrite statusPacket emptyReply))) = ([], None)
   \<and> fst (GetStatus rc0 emptyReply) = Inl ErrEmptyStatus
   \<and> \<not> closed refusedAfterData \<and> writes refusedAfterData = []
   \<and> reads refusedAfterData
       = map Datagram [sentinel @ ''infoResponse\<newline>'' @ infoLine]
         @ Failure (ErrIO ''connection refused'') # []
   \<and> ErrIO ''connection refused'' \<noteq> ErrTimeout
   \<and> fst (GetInfo rc0 refusedAfterData) = Inl (ErrIO ''connection refused'')
   \<and> fst (GetStatus rc0 refusedAfterData) = Inl (ErrIO ''connection refused'')"
proof -
  have a: "Conn rc0 \<noteq> None" by (simp add: rc0_def)
  have q: "\<not> closed quiet" "writes quiet = []" "reads quiet = []" by (simp_all add: quiet_def)
  have u: "fst (connWrite infoPacket unreachable) = Some (ErrIO ''network is unreachable'')"
    by code_simp
  have e: "fst (connWrite statusPacket emptyReply) = None" by code_simp
  have r: "fst (readResponse (timeoutOrDefault rc0) defaultReadExtension
             (snd (connWrite statusPacket emptyReply))) = ([], None)"
    by code_simp
  have x: "\<not> closed refusedAfterData" "writes refusedAfterData = []"
    "reads refusedAfterData
       = map Datagram [sentinel @ ''infoResponse\<newline>'' @ infoLine]
         @ Failure (ErrIO ''connection refused'') # []"
    by (simp_all add: refusedAfterData_def quiet_def)
  have y: "ErrIO ''connection refused'' \<noteq> ErrTimeout" by simp
  note t1 = query_single_exchange [OF a, of quiet]
    and t2 = query_single_exchange [OF a, of unreachable "ErrIO ''network is unreachable''"]
    and t3 = query_single_exchange [OF a, of emptyReply]
    and t4 = query_single_exchange [OF a, where w = refusedAfterData
        and dgs = "[sentinel @ ''infoResponse\<newline>'' @ infoLine]"
        and e = "ErrIO ''connection refused''" and rest = "[]"]
  from t1 q have g1: "fst (GetInfo rc0 quiet) = Inl ErrTimeout"
    and g2: "fst (GetStatus rc0 quiet) = Inl ErrTimeout" by blast+
  from t2 u have g3: "GetInfo rc0 unreachable
       = (Inl (ErrIO ''network is unreachable''), snd (connWrite infoPacket unreachable))"
    by blast
  from t3 e r have g4: "fst (GetStatus rc0 emptyReply) = Inl ErrEmptyStatus" by blast
  from t4 x y have g5: "fst (GetInfo rc0 refusedAfterData) = Inl (ErrIO ''connection refused'')"
    and g6: "fst (GetStatus rc0 refusedAfterData) = Inl (ErrIO ''connection refused'')"
    by blast+
  from a q g1 g2 u g3 e r g4 x y g5 g6 show ?thesis by (intro conjI)
qed

end
